theory Spec2Isabelle
  imports Complex_Main
begin

section \<open>Numbers and probes\<close>

text \<open>
  JavaScript numbers are modelled as exact real numbers. Counters and elapsed times are
  naturals (milliseconds), the clock is an integer number of milliseconds.
  \<open>Math.round\<close> rounds to the nearest integer, a tie going up.
\<close>

definition Math_round :: "real \<Rightarrow> int" where
  "Math_round x = \<lfloor>x + 1 / 2\<rfloor>"

text \<open>
  The outcome of one \<open>fetch\<close>: either a response came back (HTTP status, time it took),
  or the call threw (timeout, DNS failure, refused connection) after some time.
\<close>

datatype fetch_outcome = Response nat nat | NetworkError nat

record world =
  now :: int
  net :: "string \<Rightarrow> nat \<Rightarrow> fetch_outcome"
  sent :: nat

text \<open>
  The network is an oracle: \<open>net w url k\<close> is what the \<open>k\<close>-th request issued in
  this run meets. \<open>AbortSignal.timeout t\<close> turns anything slower than \<open>t\<close> into a throw
  at \<open>t\<close>. Awaiting the fetch advances the clock by the time it took.
\<close>

fun abort_after :: "nat \<Rightarrow> fetch_outcome \<Rightarrow> fetch_outcome" where
  "abort_after timeout (Response st e) =
     (if e < timeout then Response st e else NetworkError timeout)"
| "abort_after timeout (NetworkError e) = NetworkError (min e timeout)"

fun elapsed :: "fetch_outcome \<Rightarrow> nat" where
  "elapsed (Response st e) = e"
| "elapsed (NetworkError e) = e"

definition fetch :: "string \<Rightarrow> nat \<Rightarrow> world \<Rightarrow> fetch_outcome \<times> world" where
  "fetch url timeout w =
     (let out = abort_after timeout (net w url (sent w))
      in (out, w\<lparr>now := now w + int (elapsed out), sent := sent w + 1\<rparr>))"

text \<open>\<open>await new Promise(resolve => setTimeout(resolve, d))\<close>: whole milliseconds pass.\<close>

definition sleep :: "real \<Rightarrow> world \<Rightarrow> world" where
  "sleep d w = w\<lparr>now := now w + \<lfloor>d\<rfloor>\<rparr>"

definition response_ok :: "nat \<Rightarrow> bool" where
  "response_ok st = (200 \<le> st \<and> st \<le> 299)"

section \<open>benchmarkService.ts\<close>

record BenchmarkResult =
  averageResponseTime :: real
  successRate :: real
  errorRate :: real
  totalRequests :: nat
  successfulRequests :: nat
  failedRequests :: nat

text \<open>The three local variables every profile accumulates into.\<close>

record acc =
  responses :: "nat list"
  successCount :: nat
  failCount :: nat

definition acc0 :: acc where
  "acc0 = \<lparr>responses = [], successCount = 0, failCount = 0\<rparr>"

text \<open>
  What one loop body does with the outcome of its fetch: a response with an ok status
  pushes its time and counts a success, any other response and any throw count a failure.
\<close>

definition tally :: "fetch_outcome \<Rightarrow> acc \<Rightarrow> acc" where
  "tally out a =
     (case out of
        Response st e \<Rightarrow>
          if response_ok st
          then a\<lparr>responses := responses a @ [e], successCount := successCount a + 1\<rparr>
          else a\<lparr>failCount := failCount a + 1\<rparr>
      | NetworkError e \<Rightarrow> a\<lparr>failCount := failCount a + 1\<rparr>)"

subsection \<open>runResponseTimeTest\<close>

text \<open>
  The loop \<open>while (Date.now() < endTime || requestCount < minimumRequests)\<close> with its
  closing \<open>if (requestCount > 100) break\<close>. The delay after a response is
  \<open>min 200 (max 50 (responseTime * 0.1))\<close>, after a throw it is 100.
\<close>

function rt_loop :: "string \<Rightarrow> int \<Rightarrow> nat \<Rightarrow> acc \<Rightarrow> world \<Rightarrow> acc \<times> world" where
  "rt_loop url endTime requestCount a w =
     (if now w < endTime \<or> requestCount < 5 then
        (case fetch url 10000 w of
           (Response st e, w1) \<Rightarrow>
             (let a1 = tally (Response st e) a;
                  w2 = sleep (min 200 (max 50 (of_nat e * (1 / 10)))) w1
              in if requestCount + 1 > 100 then (a1, w2)
                 else rt_loop url endTime (requestCount + 1) a1 w2)
         | (NetworkError e, w1) \<Rightarrow>
             (let a1 = tally (NetworkError e) a;
                  w2 = sleep 100 w1
              in if requestCount + 1 > 100 then (a1, w2)
                 else rt_loop url endTime (requestCount + 1) a1 w2))
      else (a, w))"
  by pat_completeness auto
termination
  by (relation "measure (\<lambda>(url, endTime, requestCount, a, w). 101 - requestCount)") auto

declare rt_loop.simps [simp del]

definition runResponseTimeTest :: "string \<Rightarrow> int \<Rightarrow> world \<Rightarrow> BenchmarkResult \<times> world" where
  "runResponseTimeTest url duration w =
     (let endTime = now w + duration * 1000;
          (a, w') = rt_loop url endTime 0 acc0 w;
          total = successCount a + failCount a
      in (\<lparr>averageResponseTime =
             (if length (responses a) > 0
              then of_int (Math_round (of_nat (sum_list (responses a)) / of_nat (length (responses a))))
              else 0),
           successRate =
             (if total > 0
              then of_int (Math_round (of_nat (successCount a) / of_nat total * 100 * 100)) / 100
              else 0),
           errorRate =
             (if total > 0
              then of_int (Math_round (of_nat (failCount a) / of_nat total * 100 * 100)) / 100
              else 0),
           totalRequests = total,
           successfulRequests = successCount a,
           failedRequests = failCount a\<rparr>, w'))"

subsection \<open>runReliabilityTest\<close>

function rel_loop :: "string \<Rightarrow> int \<Rightarrow> acc \<Rightarrow> world \<Rightarrow> acc \<times> world" where
  "rel_loop url endTime a w =
     (if now w < endTime then
        (case fetch url 30000 w of
           (out, w1) \<Rightarrow> rel_loop url endTime (tally out a) (sleep 5000 w1))
      else (a, w))"
  by pat_completeness auto
termination
  by (relation "measure (\<lambda>(url, endTime, a, w). nat (endTime - now w))")
     (auto simp: fetch_def sleep_def Let_def)

declare rel_loop.simps [simp del]

definition runReliabilityTest :: "string \<Rightarrow> int \<Rightarrow> world \<Rightarrow> BenchmarkResult \<times> world" where
  "runReliabilityTest url duration w =
     (let endTime = now w + duration * 1000;
          (a, w') = rel_loop url endTime acc0 w;
          total = successCount a + failCount a
      in (\<lparr>averageResponseTime =
             (if length (responses a) > 0
              then of_nat (sum_list (responses a)) / of_nat (length (responses a))
              else 0),
           successRate = (if total > 0 then of_nat (successCount a) / of_nat total * 100 else 0),
           errorRate = (if total > 0 then of_nat (failCount a) / of_nat total * 100 else 0),
           totalRequests = total,
           successfulRequests = successCount a,
           failedRequests = failCount a\<rparr>, w'))"

subsection \<open>runLoadTest and runStressTest\<close>

text \<open>
  Both profiles start a pool of workers, each a loop of its own: while the deadline has
  not passed, fetch, count the outcome, pause. The event loop runs one continuation at a
  time, so the pool is a list of the times at which each worker next reaches the head of
  its loop, and the worker that is due first (the lowest index among equals) goes next.
  A worker's fetch, its counting and its pause are taken as one step; the counters and
  the sum of the response times do not depend on the order in which the workers count.
\<close>

datatype pool = LoadWorkers | StressWorkers

fun pool_timeout :: "pool \<Rightarrow> nat" where
  "pool_timeout LoadWorkers = 10000"
| "pool_timeout StressWorkers = 15000"

fun pool_pause :: "pool \<Rightarrow> nat" where
  "pool_pause LoadWorkers = 50"
| "pool_pause StressWorkers = 100"

fun earliest :: "int list \<Rightarrow> nat option" where
  "earliest [] = None"
| "earliest (t # ts) =
     (case earliest ts of
        None \<Rightarrow> Some 0
      | Some j \<Rightarrow> if t \<le> ts ! j then Some 0 else Some (Suc j))"

lemma earliest_less: "earliest ts = Some i \<Longrightarrow> i < length ts"
  by (induction ts arbitrary: i) (auto split: option.splits if_splits)

lemma elapsed_abort_after: "elapsed (abort_after t out) \<le> t"
  by (cases out) simp_all

lemma fetch_clock:
  "fetch url t w = (out, w1) \<Longrightarrow> now w \<le> now w1 \<and> now w1 \<le> now w + int t"
  using elapsed_abort_after[of t "net w url (sent w)"] by (auto simp: fetch_def Let_def)

definition remaining :: "real \<Rightarrow> int list \<Rightarrow> nat" where
  "remaining endTime wakes = sum_list (map (\<lambda>t. nat (\<lceil>endTime\<rceil> - t)) wakes)"

lemma remaining_decreases:
  assumes "i < length wakes" and "of_int (wakes ! i) < endTime" and "wakes ! i < t'"
  shows "remaining endTime (wakes[i := t']) < remaining endTime wakes"
proof -
  let ?f = "\<lambda>t. nat (\<lceil>endTime\<rceil> - t)"
  from assms(2) have "wakes ! i < \<lceil>endTime\<rceil>" by (simp add: less_ceiling_iff)
  with assms(3) have less: "?f t' < ?f (wakes ! i)" by simp
  have i: "i < length (map ?f wakes)" using assms(1) by simp
  have "sum_list ((map ?f wakes)[i := ?f t']) = sum_list (map ?f wakes) + ?f t' - (map ?f wakes) ! i"
    by (rule sum_list_update[OF i])
  moreover have "(map ?f wakes) ! i \<le> sum_list (map ?f wakes)"
    by (rule elem_le_sum_list[OF i])
  moreover have "(map ?f wakes) ! i = ?f (wakes ! i)"
    using assms(1) by simp
  moreover have "\<And>S a b :: nat. a < b \<Longrightarrow> b \<le> S \<Longrightarrow> S + a - b < S"
    by arith
  ultimately have "sum_list ((map ?f wakes)[i := ?f t']) < sum_list (map ?f wakes)"
    using less by metis
  then show ?thesis
    by (simp add: remaining_def map_update)
qed

lemma workers_step_decreases:
  assumes "earliest wakes = Some i" and "of_int (wakes ! i) < endTime"
    and "fetch url (pool_timeout p) (w\<lparr>now := wakes ! i\<rparr>) = (out, w1)"
  shows "remaining endTime (wakes[i := now w1 + int (pool_pause p)]) < remaining endTime wakes"
proof -
  from fetch_clock[OF assms(3)] have "wakes ! i \<le> now w1" by simp
  moreover have "0 < pool_pause p" by (cases p) simp_all
  ultimately have "wakes ! i < now w1 + int (pool_pause p)" by simp
  with remaining_decreases[OF earliest_less[OF assms(1)] assms(2)] show ?thesis by simp
qed

function workers :: "pool \<Rightarrow> string \<Rightarrow> real \<Rightarrow> int list \<Rightarrow> acc \<Rightarrow> world \<Rightarrow> acc \<times> world" where
  "workers p url endTime wakes a w =
     (case earliest wakes of
        None \<Rightarrow> (a, w)
      | Some i \<Rightarrow>
          if of_int (wakes ! i) < endTime then
            (case fetch url (pool_timeout p) (w\<lparr>now := wakes ! i\<rparr>) of
               (out, w1) \<Rightarrow>
                 workers p url endTime (wakes[i := now w1 + int (pool_pause p)]) (tally out a) w1)
          else (a, w\<lparr>now := fold max wakes (now w)\<rparr>))"
  by pat_completeness auto
termination
  by (relation "measure (\<lambda>(p, url, endTime, wakes, a, w). remaining endTime wakes)")
     (auto intro!: workers_step_decreases[OF _ _ sym])

declare workers.simps [simp del]

definition runLoadTest :: "string \<Rightarrow> int \<Rightarrow> world \<Rightarrow> BenchmarkResult \<times> world" where
  "runLoadTest url duration w =
     (let concurrentRequests = 10;
          endTime = now w + duration * 1000;
          (a, w') = workers LoadWorkers url (of_int endTime) (replicate concurrentRequests (now w)) acc0 w;
          total = successCount a + failCount a
      in (\<lparr>averageResponseTime =
             (if length (responses a) > 0
              then of_nat (sum_list (responses a)) / of_nat (length (responses a))
              else 0),
           successRate = (if total > 0 then of_nat (successCount a) / of_nat total * 100 else 0),
           errorRate = (if total > 0 then of_nat (failCount a) / of_nat total * 100 else 0),
           totalRequests = total,
           successfulRequests = successCount a,
           failedRequests = failCount a\<rparr>, w'))"

text \<open>
  One pass of \<open>for (let phase = 0; phase < 3; phase++)\<close>: the phase's deadline is read
  off the clock when the phase starts, and the phase ends when all its workers have left.
\<close>

definition stress_phase :: "string \<Rightarrow> real \<Rightarrow> nat \<Rightarrow> acc \<times> world \<Rightarrow> acc \<times> world" where
  "stress_phase url testDuration phase aw =
     (case aw of (a, w) \<Rightarrow>
        (let maxConcurrency = 50;
             phaseDuration = testDuration / 3;
             phaseEndTime = of_int (now w) + phaseDuration;
             concurrency = min (5 * (phase + 1)) maxConcurrency
         in workers StressWorkers url phaseEndTime (replicate concurrency (now w)) a w))"

definition runStressTest :: "string \<Rightarrow> int \<Rightarrow> world \<Rightarrow> BenchmarkResult \<times> world" where
  "runStressTest url duration w =
     (let testDuration = of_int duration * 1000;
          (a, w') = fold (stress_phase url testDuration) [0, 1, 2] (acc0, w);
          total = successCount a + failCount a
      in (\<lparr>averageResponseTime =
             (if length (responses a) > 0
              then of_nat (sum_list (responses a)) / of_nat (length (responses a))
              else 0),
           successRate = (if total > 0 then of_nat (successCount a) / of_nat total * 100 else 0),
           errorRate = (if total > 0 then of_nat (failCount a) / of_nat total * 100 else 0),
           totalRequests = total,
           successfulRequests = successCount a,
           failedRequests = failCount a\<rparr>, w'))"

subsection \<open>calculatePerformanceScore\<close>

definition calculatePerformanceScore :: "BenchmarkResult \<Rightarrow> int" where
  "calculatePerformanceScore result =
     (let score = 100;
          score = (if averageResponseTime result > 1000 then score - 30
                   else if averageResponseTime result > 500 then score - 20
                   else if averageResponseTime result > 200 then score - 10
                   else score);
          score = (if errorRate result > 5 then score - 40
                   else if errorRate result > 1 then score - 20
                   else if errorRate result > 1 / 10 then score - 10
                   else score)
      in max 0 (min 100 score))"

section \<open>The storage interface\<close>

text \<open>
  The services pass most numbers to the storage as their decimal text
  (\<open>x.toString()\<close>, or a literal such as \<open>"0"\<close>). A numeric string is kept as the number
  it denotes: \<open>"0"\<close> is \<open>NumString 0\<close> and \<open>"100"\<close> is \<open>NumString 100\<close>.
\<close>

datatype num_string = NumString real

definition toString :: "real \<Rightarrow> num_string" where
  "toString x = NumString x"

text \<open>The columns of a benchmark row that \<open>updateBenchmark\<close> is given values for.\<close>

datatype field =
    Status string
  | StartedAt int
  | CompletedAt int
  | AverageResponseTime num_string
  | SuccessRate num_string
  | ErrorRate num_string
  | TotalRequests nat
  | SuccessfulRequests nat
  | FailedRequests nat

record Benchmark =
  b_applicationId :: string
  b_status :: "string option"
  b_startedAt :: "int option"
  b_completedAt :: "int option"
  b_averageResponseTime :: "num_string option"
  b_successRate :: "num_string option"
  b_errorRate :: "num_string option"
  b_totalRequests :: "nat option"
  b_successfulRequests :: "nat option"
  b_failedRequests :: "nat option"

fun set_field :: "field \<Rightarrow> Benchmark \<Rightarrow> Benchmark" where
  "set_field (Status v) b = b\<lparr>b_status := Some v\<rparr>"
| "set_field (StartedAt v) b = b\<lparr>b_startedAt := Some v\<rparr>"
| "set_field (CompletedAt v) b = b\<lparr>b_completedAt := Some v\<rparr>"
| "set_field (AverageResponseTime v) b = b\<lparr>b_averageResponseTime := Some v\<rparr>"
| "set_field (SuccessRate v) b = b\<lparr>b_successRate := Some v\<rparr>"
| "set_field (ErrorRate v) b = b\<lparr>b_errorRate := Some v\<rparr>"
| "set_field (TotalRequests v) b = b\<lparr>b_totalRequests := Some v\<rparr>"
| "set_field (SuccessfulRequests v) b = b\<lparr>b_successfulRequests := Some v\<rparr>"
| "set_field (FailedRequests v) b = b\<lparr>b_failedRequests := Some v\<rparr>"

record InsertPerformanceMetrics =
  pm_applicationId :: string
  pm_responseTime :: num_string
  pm_uptime :: num_string
  pm_errorRate :: num_string
  pm_performanceScore :: int

record InsertReliabilityMetrics =
  rm_applicationId :: string
  rm_uptime :: num_string
  rm_slaCompliance :: num_string
  rm_outageCount :: nat
  rm_mttr :: num_string

datatype storage_call =
    UpdateBenchmark string "field list"
  | GetBenchmarkById string
  | CreatePerformanceMetrics InsertPerformanceMetrics
  | CreateReliabilityMetrics InsertReliabilityMetrics

datatype exn = Error string

text \<open>
  The whole state the two services run in: the clock and the network, the three tables,
  the monitor's map of timers (application id to the URL its timer probes), and two
  fields that describe the run rather than the program. \<open>calls\<close> is the log of the calls
  made to the storage, each with whether it threw; \<open>faults\<close> says which calls throw, by
  their position in that log, whatever makes them throw (a lost connection, a constraint
  of the schema). A call that throws changes no table.
\<close>

record sys =
  world :: world
  benchmarks :: "string \<rightharpoonup> Benchmark"
  performanceMetrics :: "InsertPerformanceMetrics list"
  reliabilityMetrics :: "InsertReliabilityMetrics list"
  monitoringIntervals :: "string \<rightharpoonup> string"
  faults :: "nat \<Rightarrow> bool"
  calls :: "(storage_call \<times> bool) list"

text \<open>
  An async function is a state transformer that returns a value or throws.
  \<open>await m f\<close> runs \<open>m\<close> and hands its value to \<open>f\<close>, a throw of \<open>m\<close> passes through;
  \<open>try_catch m h\<close> hands a throw of \<open>m\<close> to \<open>h\<close>.
\<close>

type_synonym 'a prog = "sys \<Rightarrow> (exn + 'a) \<times> sys"

definition ret :: "'a \<Rightarrow> 'a prog" where
  "ret x = (\<lambda>s. (Inr x, s))"

definition throw :: "exn \<Rightarrow> 'a prog" where
  "throw e = (\<lambda>s. (Inl e, s))"

definition await :: "'a prog \<Rightarrow> ('a \<Rightarrow> 'b prog) \<Rightarrow> 'b prog" where
  "await m f = (\<lambda>s. case m s of (Inl e, s') \<Rightarrow> (Inl e, s') | (Inr x, s') \<Rightarrow> f x s')"

definition try_catch :: "'a prog \<Rightarrow> (exn \<Rightarrow> 'a prog) \<Rightarrow> 'a prog" where
  "try_catch m h = (\<lambda>s. case m s of (Inl e, s') \<Rightarrow> h e s' | (Inr x, s') \<Rightarrow> (Inr x, s'))"

definition io :: "(world \<Rightarrow> 'a \<times> world) \<Rightarrow> 'a prog" where
  "io f = (\<lambda>s. case f (world s) of (x, w') \<Rightarrow> (Inr x, s\<lparr>world := w'\<rparr>))"

text \<open>\<open>new Date()\<close>\<close>

definition new_Date :: "int prog" where
  "new_Date = (\<lambda>s. (Inr (now (world s)), s))"

definition db_call :: "storage_call \<Rightarrow> (sys \<Rightarrow> 'a \<times> sys) \<Rightarrow> 'a prog" where
  "db_call c run s =
     (let threw = faults s (length (calls s));
          s1 = s\<lparr>calls := calls s @ [(c, threw)]\<rparr>
      in if threw then (Inl (Error ''storage''), s1)
         else (case run s1 of (x, s2) \<Rightarrow> (Inr x, s2)))"

definition getBenchmarkById :: "string \<Rightarrow> Benchmark option prog" where
  "getBenchmarkById bid = db_call (GetBenchmarkById bid) (\<lambda>s. (benchmarks s bid, s))"

definition updateBenchmark :: "string \<Rightarrow> field list \<Rightarrow> unit prog" where
  "updateBenchmark bid data =
     (if length data = 0 then ret ()
      else db_call (UpdateBenchmark bid data)
             (\<lambda>s. ((), case benchmarks s bid of
                          None \<Rightarrow> s
                        | Some b \<Rightarrow> s\<lparr>benchmarks := (benchmarks s)(bid \<mapsto> fold set_field data b)\<rparr>)))"

definition createPerformanceMetrics :: "InsertPerformanceMetrics \<Rightarrow> unit prog" where
  "createPerformanceMetrics metrics =
     db_call (CreatePerformanceMetrics metrics)
       (\<lambda>s. ((), s\<lparr>performanceMetrics := performanceMetrics s @ [metrics]\<rparr>))"

definition createReliabilityMetrics :: "InsertReliabilityMetrics \<Rightarrow> unit prog" where
  "createReliabilityMetrics metrics =
     db_call (CreateReliabilityMetrics metrics)
       (\<lambda>s. ((), s\<lparr>reliabilityMetrics := reliabilityMetrics s @ [metrics]\<rparr>))"

subsection \<open>runBenchmark\<close>

text \<open>The \<open>switch (type)\<close>: the profile a type string selects, if any.\<close>

definition profile :: "string \<Rightarrow> (string \<Rightarrow> int \<Rightarrow> world \<Rightarrow> BenchmarkResult \<times> world) option" where
  "profile type =
     (if type = ''response_time'' then Some runResponseTimeTest
      else if type = ''load_test'' then Some runLoadTest
      else if type = ''stress_test'' then Some runStressTest
      else if type = ''reliability_test'' then Some runReliabilityTest
      else None)"

definition run_profile :: "string \<Rightarrow> string \<Rightarrow> int \<Rightarrow> BenchmarkResult prog" where
  "run_profile type url duration =
     (case profile type of
        Some run \<Rightarrow> io (run url duration)
      | None \<Rightarrow> throw (Error (''Unknown benchmark type: '' @ type)))"

definition runBenchmark :: "string \<Rightarrow> string \<Rightarrow> string \<Rightarrow> int \<Rightarrow> unit prog" where
  "runBenchmark benchmarkId url type duration =
     try_catch
       (await new_Date (\<lambda>startedAt.
        await (updateBenchmark benchmarkId [Status ''running'', StartedAt startedAt]) (\<lambda>_.
        await (run_profile type url duration) (\<lambda>result.
        await new_Date (\<lambda>completedAt.
        await (updateBenchmark benchmarkId
                 [AverageResponseTime (toString (averageResponseTime result)),
                  SuccessRate (toString (successRate result)),
                  ErrorRate (toString (errorRate result)),
                  TotalRequests (totalRequests result),
                  SuccessfulRequests (successfulRequests result),
                  FailedRequests (failedRequests result),
                  Status ''completed'',
                  CompletedAt completedAt]) (\<lambda>_.
        await (getBenchmarkById benchmarkId) (\<lambda>benchmark.
          case benchmark of
            None \<Rightarrow> ret ()
          | Some b \<Rightarrow>
              (let performanceScore = calculatePerformanceScore result
               in createPerformanceMetrics
                    \<lparr>pm_applicationId = b_applicationId b,
                     pm_responseTime = toString (averageResponseTime result),
                     pm_uptime = toString (successRate result),
                     pm_errorRate = toString (errorRate result),
                     pm_performanceScore = performanceScore\<rparr>))))))))
       (\<lambda>error.
        await new_Date (\<lambda>completedAt.
        updateBenchmark benchmarkId [Status ''failed'', CompletedAt completedAt]))"

section \<open>reliabilityService.ts\<close>

record UptimeResult =
  uptime :: nat
  responseTime :: nat
  isOnline :: bool
  statusCode :: "nat option"

text \<open>\<open>await fetch(...)\<close> where a failed fetch is a throw.\<close>

definition fetch_or_throw :: "string \<Rightarrow> nat \<Rightarrow> (nat \<times> nat) prog" where
  "fetch_or_throw url timeout =
     await (io (fetch url timeout))
       (\<lambda>out. case out of
                 Response st e \<Rightarrow> ret (st, e)
               | NetworkError e \<Rightarrow> throw (Error ''fetch failed''))"

definition performUptimeCheck :: "string \<Rightarrow> UptimeResult prog" where
  "performUptimeCheck url =
     try_catch
       (await (fetch_or_throw url 30000) (\<lambda>(status, elapsed).
          (let responseTime = elapsed;
               isOnline = response_ok status
           in ret \<lparr>uptime = (if isOnline then 100 else 0),
                   responseTime = responseTime,
                   isOnline = isOnline,
                   statusCode = Some status\<rparr>)))
       (\<lambda>error. ret \<lparr>uptime = 0, responseTime = 0, isOnline = False, statusCode = None\<rparr>)"

definition calculateSLACompliance :: "UptimeResult \<Rightarrow> int" where
  "calculateSLACompliance result =
     (let compliance = 100;
          compliance =
            (if \<not> isOnline result then 0
             else if responseTime result > 5000 then compliance - 50
             else if responseTime result > 2000 then compliance - 25
             else if responseTime result > 1000 then compliance - 10
             else compliance)
      in max 0 (min 100 compliance))"

text \<open>The monitor's own \<open>calculatePerformanceScore\<close>, on an \<open>UptimeResult\<close>.\<close>

definition calculatePerformanceScore_uptime :: "UptimeResult \<Rightarrow> int" where
  "calculatePerformanceScore_uptime result =
     (if \<not> isOnline result then 0
      else
        (let score = 100;
             score = (if responseTime result > 3000 then score - 40
                      else if responseTime result > 1000 then score - 20
                      else if responseTime result > 500 then score - 10
                      else score)
         in max 0 (min 100 score)))"

definition failure_metrics :: "string \<Rightarrow> InsertReliabilityMetrics" where
  "failure_metrics applicationId =
     \<lparr>rm_applicationId = applicationId,
      rm_uptime = NumString 0,
      rm_slaCompliance = NumString 0,
      rm_outageCount = 1,
      rm_mttr = NumString 1\<rparr>"

definition checkReliability :: "string \<Rightarrow> string \<Rightarrow> unit prog" where
  "checkReliability applicationId url =
     try_catch
       (await (performUptimeCheck url) (\<lambda>result.
        await (createReliabilityMetrics
                 \<lparr>rm_applicationId = applicationId,
                  rm_uptime = toString (of_nat (uptime result)),
                  rm_slaCompliance = toString (of_int (calculateSLACompliance result)),
                  rm_outageCount = (if isOnline result then 0 else 1),
                  rm_mttr = toString (if isOnline result then 0 else 1)\<rparr>) (\<lambda>_.
        createPerformanceMetrics
          \<lparr>pm_applicationId = applicationId,
           pm_responseTime = toString (of_nat (responseTime result)),
           pm_uptime = toString (of_nat (uptime result)),
           pm_errorRate = (if isOnline result then NumString 0 else NumString 100),
           pm_performanceScore = calculatePerformanceScore_uptime result\<rparr>)))
       (\<lambda>error. createReliabilityMetrics (failure_metrics applicationId))"

definition stopMonitoring :: "string \<Rightarrow> unit prog" where
  "stopMonitoring applicationId =
     (\<lambda>s. (Inr (), case monitoringIntervals s applicationId of
                      None \<Rightarrow> s
                    | Some interval \<Rightarrow>
                        s\<lparr>monitoringIntervals := (monitoringIntervals s)(applicationId := None)\<rparr>))"

definition startMonitoring :: "string \<Rightarrow> string \<Rightarrow> unit prog" where
  "startMonitoring applicationId url =
     await (stopMonitoring applicationId) (\<lambda>_.
     await (\<lambda>s. (Inr (), s\<lparr>monitoringIntervals := (monitoringIntervals s)(applicationId \<mapsto> url)\<rparr>)) (\<lambda>_.
     checkReliability applicationId url))"

text \<open>What the timer armed by \<open>startMonitoring\<close> does each time it fires.\<close>

definition tick :: "string \<Rightarrow> unit prog" where
  "tick applicationId =
     (\<lambda>s. case monitoringIntervals s applicationId of
             None \<Rightarrow> (Inr (), s)
           | Some url \<Rightarrow> checkReliability applicationId url s)"

section \<open>Samples and their summary\<close>

text \<open>
  The samples of a run are the outcomes of the requests it issued: the requests numbered
  from \<open>sent\<close> before the run up to \<open>sent\<close> after it, each cut off at the profile's timeout.
\<close>

definition samples :: "string \<Rightarrow> nat \<Rightarrow> world \<Rightarrow> world \<Rightarrow> fetch_outcome list" where
  "samples url timeout w w' = map (\<lambda>k. abort_after timeout (net w url k)) [sent w..<sent w']"

definition request_timeout :: "string \<Rightarrow> nat" where
  "request_timeout type =
     (if type = ''stress_test'' then 15000
      else if type = ''reliability_test'' then 30000
      else 10000)"

definition succeeded :: "fetch_outcome \<Rightarrow> bool" where
  "succeeded out = (case out of Response st e \<Rightarrow> response_ok st | NetworkError e \<Rightarrow> False)"

text \<open>
  The aggregation as the specification words it: the mean of the elapsed times of the
  successful samples, the rates as percentages of the requests issued, and the counts.
  \<open>rounded\<close> says whether the mean is rounded to an integer and the rates to two decimals.
\<close>

definition mean :: "nat list \<Rightarrow> real" where
  "mean xs = (if xs = [] then 0 else real (sum_list xs) / real (length xs))"

definition percent :: "nat \<Rightarrow> nat \<Rightarrow> real" where
  "percent k n = (if n = 0 then 0 else real k / real n * 100)"

definition round2 :: "real \<Rightarrow> real" where
  "round2 x = of_int (Math_round (x * 100)) / 100"

definition two_decimals :: "real \<Rightarrow> bool" where
  "two_decimals x = (of_int \<lfloor>x * 100\<rfloor> = x * 100)"

definition summary :: "bool \<Rightarrow> fetch_outcome list \<Rightarrow> BenchmarkResult" where
  "summary rounded outs =
     (let ok = filter succeeded outs;
          failed = filter (\<lambda>out. \<not> succeeded out) outs;
          times = map elapsed ok
      in \<lparr>averageResponseTime = (if rounded then of_int (Math_round (mean times)) else mean times),
          successRate = (if rounded then round2 (percent (length ok) (length outs))
                         else percent (length ok) (length outs)),
          errorRate = (if rounded then round2 (percent (length failed) (length outs))
                       else percent (length failed) (length outs)),
          totalRequests = length outs,
          successfulRequests = length ok,
          failedRequests = length failed\<rparr>)"

text \<open>The closing lines of a profile, as a function of its three counters.\<close>

definition report :: "bool \<Rightarrow> acc \<Rightarrow> BenchmarkResult" where
  "report rounded a =
     (let total = successCount a + failCount a
      in \<lparr>averageResponseTime =
            (if rounded then of_int (Math_round (mean (responses a))) else mean (responses a)),
          successRate = (if rounded then round2 (percent (successCount a) total)
                         else percent (successCount a) total),
          errorRate = (if rounded then round2 (percent (failCount a) total)
                       else percent (failCount a) total),
          totalRequests = total,
          successfulRequests = successCount a,
          failedRequests = failCount a\<rparr>)"

text \<open>
  \<open>tallied url timeout (a, w) (a', w')\<close>: between the two states the network was left as
  it was and the counters took in exactly the samples issued in between.
\<close>

definition tallied :: "string \<Rightarrow> nat \<Rightarrow> acc \<times> world \<Rightarrow> acc \<times> world \<Rightarrow> bool" where
  "tallied url timeout before after =
     (case (before, after) of ((a, w), (a', w')) \<Rightarrow>
        net w' = net w \<and> sent w \<le> sent w' \<and> a' = fold tally (samples url timeout w w') a)"

text \<open>One pass through the body of the loop of \<open>runResponseTimeTest\<close>.\<close>

definition rt_body :: "string \<Rightarrow> acc \<Rightarrow> world \<Rightarrow> acc \<times> world" where
  "rt_body url a w =
     (case fetch url 10000 w of
        (Response st e, w1) \<Rightarrow>
          (tally (Response st e) a, sleep (min 200 (max 50 (of_nat e * (1 / 10)))) w1)
      | (NetworkError e, w1) \<Rightarrow> (tally (NetworkError e) a, sleep 100 w1))"

definition issued :: "acc \<Rightarrow> nat" where
  "issued a = successCount a + failCount a"

section \<open>What a run asked of the storage\<close>

text \<open>
  The calls a run added to the log, each with whether it threw; the calls alone, and
  those of them that went through; the records they carry, the writes to the row of a
  campaign and the statuses in a write.
\<close>

definition new_calls :: "sys \<Rightarrow> sys \<Rightarrow> (storage_call \<times> bool) list" where
  "new_calls s s' = drop (length (calls s)) (calls s')"

definition attempted :: "(storage_call \<times> bool) list \<Rightarrow> storage_call list" where
  "attempted t = map fst t"

definition committed :: "(storage_call \<times> bool) list \<Rightarrow> storage_call list" where
  "committed t = map fst (filter (\<lambda>(c, threw). \<not> threw) t)"

fun reliability_records :: "storage_call list \<Rightarrow> InsertReliabilityMetrics list" where
  "reliability_records [] = []"
| "reliability_records (CreateReliabilityMetrics m # cs) = m # reliability_records cs"
| "reliability_records (c # cs) = reliability_records cs"

fun performance_records :: "storage_call list \<Rightarrow> InsertPerformanceMetrics list" where
  "performance_records [] = []"
| "performance_records (CreatePerformanceMetrics m # cs) = m # performance_records cs"
| "performance_records (c # cs) = performance_records cs"

fun statuses :: "field list \<Rightarrow> string list" where
  "statuses [] = []"
| "statuses (Status v # fs) = v # statuses fs"
| "statuses (f # fs) = statuses fs"

fun campaign_writes :: "string \<Rightarrow> storage_call list \<Rightarrow> field list list" where
  "campaign_writes bid [] = []"
| "campaign_writes bid (UpdateBenchmark b data # cs) =
     (if b = bid then [data] else []) @ campaign_writes bid cs"
| "campaign_writes bid (c # cs) = campaign_writes bid cs"

fun is_update :: "storage_call \<Rightarrow> bool" where
  "is_update (UpdateBenchmark b data) = True"
| "is_update c = False"

fun is_write :: "storage_call \<Rightarrow> bool" where
  "is_write (GetBenchmarkById b) = False"
| "is_write c = True"

text \<open>
  A tick wrote one record pair when one reliability record and one performance record
  went through.
\<close>

definition one_record_pair :: "(storage_call \<times> bool) list \<Rightarrow> bool" where
  "one_record_pair t =
     (length (reliability_records (committed t)) = 1
      \<and> length (performance_records (committed t)) = 1)"

text \<open>
  The lifecycle of a campaign, read off the writes to its row that went through, with or
  without a status in them: at most two writes, and none after a write of a terminal
  status.
\<close>

definition terminal :: "string \<Rightarrow> bool" where
  "terminal st = (st = ''completed'' \<or> st = ''failed'')"

definition terminal_write :: "field list \<Rightarrow> bool" where
  "terminal_write data = list_ex terminal (statuses data)"

definition lifecycle_ok :: "field list list \<Rightarrow> bool" where
  "lifecycle_ok ws = (length ws \<le> 2 \<and> list_all (\<lambda>data. \<not> terminal_write data) (butlast ws))"

text \<open>The calls a run made before its first read of the storage.\<close>

definition calls_before_read :: "(storage_call \<times> bool) list \<Rightarrow> (storage_call \<times> bool) list" where
  "calls_before_read t = takeWhile (\<lambda>x. is_write (fst x)) t"

text \<open>
  The calls of \<open>runBenchmark\<close> as a function of what it can see: the clock and the
  network, which calls throw, how long the log is, and the \<open>applicationId\<close> of the
  campaign's row if \<open>getBenchmarkById\<close> finds one.
\<close>

definition benchmark_calls ::
  "string \<Rightarrow> string \<Rightarrow> string \<Rightarrow> int \<Rightarrow> world \<Rightarrow> (nat \<Rightarrow> bool) \<Rightarrow> nat \<Rightarrow> string option
     \<Rightarrow> (storage_call \<times> bool) list" where
  "benchmark_calls bid url type duration w f n app =
     (let running = UpdateBenchmark bid [Status ''running'', StartedAt (now w)];
          failed = (\<lambda>t. UpdateBenchmark bid [Status ''failed'', CompletedAt t])
      in if f n then [(running, True), (failed (now w), f (n + 1))]
         else
           (case profile type of
              None \<Rightarrow> [(running, False), (failed (now w), f (n + 1))]
            | Some run \<Rightarrow>
                (let result = fst (run url duration w);
                     t = now (snd (run url duration w));
                     completed = UpdateBenchmark bid
                       [AverageResponseTime (toString (averageResponseTime result)),
                        SuccessRate (toString (successRate result)),
                        ErrorRate (toString (errorRate result)),
                        TotalRequests (totalRequests result),
                        SuccessfulRequests (successfulRequests result),
                        FailedRequests (failedRequests result),
                        Status ''completed'',
                        CompletedAt t]
                 in if f (n + 1) then [(running, False), (completed, True), (failed t, f (n + 2))]
                    else if f (n + 2)
                    then [(running, False), (completed, False), (GetBenchmarkById bid, True),
                          (failed t, f (n + 3))]
                    else
                      (case app of
                         None \<Rightarrow> [(running, False), (completed, False), (GetBenchmarkById bid, False)]
                       | Some a \<Rightarrow>
                           (let metrics = CreatePerformanceMetrics
                                  \<lparr>pm_applicationId = a,
                                   pm_responseTime = toString (averageResponseTime result),
                                   pm_uptime = toString (successRate result),
                                   pm_errorRate = toString (errorRate result),
                                   pm_performanceScore = calculatePerformanceScore result\<rparr>
                            in if f (n + 3)
                               then [(running, False), (completed, False),
                                     (GetBenchmarkById bid, False), (metrics, True),
                                     (failed t, f (n + 4))]
                               else [(running, False), (completed, False),
                                     (GetBenchmarkById bid, False), (metrics, False)])))))"

text \<open>
  The same state with other tables.
\<close>

definition with_tables ::
  "sys \<Rightarrow> (string \<rightharpoonup> Benchmark) \<Rightarrow> InsertPerformanceMetrics list \<Rightarrow> InsertReliabilityMetrics list \<Rightarrow> sys" where
  "with_tables s B P R = s\<lparr>benchmarks := B, performanceMetrics := P, reliabilityMetrics := R\<rparr>"

section \<open>Example targets\<close>

text \<open>
  A target that answers 200 in 50 ms every time; one that answers twice (in 40 and 41 ms)
  and then refuses every connection; one that refuses every connection at once; one that
  answers once (in 40 ms) and from then on fails every request after 120 ms.
\<close>

definition steady_world :: world where
  "steady_world = \<lparr>now = 0, net = (\<lambda>url k. Response 200 50), sent = 0\<rparr>"

definition flaky_world :: world where
  "flaky_world =
     \<lparr>now = 0,
      net = (\<lambda>url k. if k = 0 then Response 200 40
                     else if k = 1 then Response 200 41
                     else NetworkError 10),
      sent = 0\<rparr>"

definition dead_world :: world where
  "dead_world = \<lparr>now = 0, net = (\<lambda>url k. NetworkError 0), sent = 0\<rparr>"

definition once_world :: world where
  "once_world =
     \<lparr>now = 0,
      net = (\<lambda>url k. if k = 0 then Response 200 40 else NetworkError 120),
      sent = 0\<rparr>"

text \<open>
  A system with empty tables in which no storage call throws; the same with the call at
  one position of the log throwing; the row of a pending campaign of application
  \<open>app\<close>.
\<close>

definition quiet_sys :: "world \<Rightarrow> sys" where
  "quiet_sys w =
     \<lparr>world = w, benchmarks = Map.empty, performanceMetrics = [], reliabilityMetrics = [],
      monitoringIntervals = Map.empty, faults = (\<lambda>k. False), calls = []\<rparr>"

definition failing_sys :: "nat \<Rightarrow> world \<Rightarrow> sys" where
  "failing_sys k w = (quiet_sys w)\<lparr>faults := (\<lambda>i. i = k)\<rparr>"

definition pending_row :: Benchmark where
  "pending_row =
     \<lparr>b_applicationId = ''app'', b_status = Some ''pending'', b_startedAt = None,
      b_completedAt = None, b_averageResponseTime = None, b_successRate = None,
      b_errorRate = None, b_totalRequests = None, b_successfulRequests = None,
      b_failedRequests = None\<rparr>"

section \<open>The profiles tally the samples they issue\<close>

lemma tallied_refl: "tallied url t (a, w) (a, w)"
  by (simp add: tallied_def samples_def)

lemma tallied_clock: "tallied url t x (a, w) \<Longrightarrow> tallied url t x (a, w\<lparr>now := n\<rparr>)"
  by (cases x) (simp add: tallied_def samples_def)

lemma tallied_clock': "tallied url t (a, w\<lparr>now := n\<rparr>) y \<Longrightarrow> tallied url t (a, w) y"
  by (cases y) (simp add: tallied_def samples_def)

lemma tallied_trans:
  assumes "tallied url t x y" and "tallied url t y z"
  shows "tallied url t x z"
proof -
  obtain a w a' w' a'' w'' where x: "x = (a, w)" and y: "y = (a', w')" and z: "z = (a'', w'')"
    by (cases x, cases y, cases z) auto
  from assms have n: "net w' = net w" "net w'' = net w" and le: "sent w \<le> sent w'" "sent w' \<le> sent w''"
    by (simp_all add: tallied_def x y z)
  from le have "[sent w..<sent w''] = [sent w..<sent w'] @ [sent w'..<sent w'']"
    by (metis le_Suc_ex upt_add_eq_append)
  then have "samples url t w w'' = samples url t w w' @ samples url t w' w''"
    by (simp add: samples_def n)
  with assms le n show ?thesis
    by (simp add: tallied_def x y z)
qed

lemma tallied_fetch:
  "fetch url t w = (out, w1) \<Longrightarrow> tallied url t (a, w) (tally out a, w1)"
  by (auto simp: fetch_def Let_def tallied_def samples_def)

lemma tallied_sleep: "tallied url t x (a, w) \<Longrightarrow> tallied url t x (a, sleep d w)"
  unfolding sleep_def by (rule tallied_clock)

lemma rel_loop_tallied: "tallied url 30000 (a, w) (rel_loop url endTime a w)"
proof (induction url endTime a w rule: rel_loop.induct)
  case (1 url endTime a w)
  show ?case
  proof (cases "now w < endTime")
    case False
    then show ?thesis by (subst rel_loop.simps) (simp add: tallied_refl)
  next
    case True
    obtain out w1 where f: "fetch url 30000 w = (out, w1)" by (cases "fetch url 30000 w")
    have "tallied url 30000 (a, w) (tally out a, sleep 5000 w1)"
      by (rule tallied_sleep[OF tallied_fetch[OF f]])
    moreover have "tallied url 30000 (tally out a, sleep 5000 w1)
                     (rel_loop url endTime (tally out a) (sleep 5000 w1))"
      by (rule "1.IH"[OF True f[symmetric]])
    ultimately have "tallied url 30000 (a, w) (rel_loop url endTime (tally out a) (sleep 5000 w1))"
      by (rule tallied_trans)
    with True f show ?thesis by (subst rel_loop.simps) simp
  qed
qed

lemma rt_loop_unfold:
  "rt_loop url endTime rc a w =
     (if now w < endTime \<or> rc < 5 then
        (if rc + 1 > 100 then rt_body url a w
         else rt_loop url endTime (rc + 1) (fst (rt_body url a w)) (snd (rt_body url a w)))
      else (a, w))"
  by (subst rt_loop.simps)
     (simp add: rt_body_def Let_def split: prod.splits fetch_outcome.splits)

lemma rt_body_tallied: "tallied url 10000 (a, w) (rt_body url a w)"
proof (cases "fetch url 10000 w")
  case (Pair out w1)
  have t: "tallied url 10000 (a, w) (tally out a, sleep d w1)" for d
    by (rule tallied_sleep[OF tallied_fetch[OF Pair]])
  show ?thesis
  proof (cases out)
    case (Response st e)
    with Pair t[of "min 200 (max 50 (of_nat e * (1 / 10)))"] show ?thesis
      by (simp add: rt_body_def)
  next
    case (NetworkError e)
    with Pair t[of 100] show ?thesis
      by (simp add: rt_body_def)
  qed
qed

lemma rt_loop_tallied: "rc \<le> 100 \<Longrightarrow> tallied url 10000 (a, w) (rt_loop url endTime rc a w)"
proof (induction "100 - rc" arbitrary: rc a w)
  case 0
  then have "rc = 100" by simp
  then show ?case
    by (subst rt_loop_unfold) (simp add: rt_body_tallied tallied_refl)
next
  case (Suc k)
  then have rc: "rc < 100" by simp
  have "tallied url 10000 (fst (rt_body url a w), snd (rt_body url a w))
          (rt_loop url endTime (rc + 1) (fst (rt_body url a w)) (snd (rt_body url a w)))"
    using Suc by (intro Suc.hyps(1)) simp_all
  with rt_body_tallied[of url a w]
  have "tallied url 10000 (a, w)
          (rt_loop url endTime (rc + 1) (fst (rt_body url a w)) (snd (rt_body url a w)))"
    by (metis prod.collapse tallied_trans)
  with rc show ?case
    by (subst rt_loop_unfold) (simp add: tallied_refl)
qed

lemma workers_tallied:
  "tallied url (pool_timeout p) (a, w) (workers p url endTime wakes a w)"
proof (induction p url endTime wakes a w rule: workers.induct)
  case (1 p url endTime wakes a w)
  show ?case
  proof (cases "earliest wakes")
    case None
    then show ?thesis by (subst workers.simps) (simp add: tallied_refl)
  next
    case (Some i)
    show ?thesis
    proof (cases "of_int (wakes ! i) < endTime")
      case False
      with Some show ?thesis
        by (subst workers.simps) (simp add: tallied_clock[OF tallied_refl])
    next
      case True
      obtain out w1 where f: "fetch url (pool_timeout p) (w\<lparr>now := wakes ! i\<rparr>) = (out, w1)"
        by (cases "fetch url (pool_timeout p) (w\<lparr>now := wakes ! i\<rparr>)")
      have "tallied url (pool_timeout p) (a, w) (tally out a, w1)"
        by (rule tallied_clock'[OF tallied_fetch[OF f]])
      moreover have "tallied url (pool_timeout p) (tally out a, w1)
          (workers p url endTime (wakes[i := now w1 + int (pool_pause p)]) (tally out a) w1)"
        by (rule "1.IH"[OF Some True f[symmetric]])
      ultimately have "tallied url (pool_timeout p) (a, w)
          (workers p url endTime (wakes[i := now w1 + int (pool_pause p)]) (tally out a) w1)"
        by (rule tallied_trans)
      with Some True f show ?thesis by (subst workers.simps) simp
    qed
  qed
qed

lemma stress_phase_tallied: "tallied url 15000 aw (stress_phase url testDuration phase aw)"
  using workers_tallied[of url StressWorkers]
  by (cases aw) (simp add: stress_phase_def Let_def)

lemma stress_phases_tallied:
  "tallied url 15000 aw (fold (stress_phase url testDuration) phases aw)"
proof (induction phases arbitrary: aw)
  case Nil
  show ?case by (cases aw) (simp add: tallied_refl)
next
  case (Cons ph phases)
  show ?case
    using tallied_trans[OF stress_phase_tallied Cons.IH] by simp
qed

lemma tally_fields:
  "responses (tally out a) = responses a @ map elapsed (filter succeeded [out])"
  "successCount (tally out a) = successCount a + length (filter succeeded [out])"
  "failCount (tally out a) = failCount a + length (filter (\<lambda>out. \<not> succeeded out) [out])"
  by (cases out; simp add: tally_def succeeded_def)+

lemma fold_tally:
  "fold tally outs a =
     \<lparr>responses = responses a @ map elapsed (filter succeeded outs),
      successCount = successCount a + length (filter succeeded outs),
      failCount = failCount a + length (filter (\<lambda>out. \<not> succeeded out) outs)\<rparr>"
proof (induction outs arbitrary: a)
  case Nil
  show ?case by simp
next
  case (Cons out outs)
  have "fold tally (out # outs) a = fold tally outs (tally out a)" by simp
  also have "\<dots> = \<lparr>responses = responses (tally out a) @ map elapsed (filter succeeded outs),
      successCount = successCount (tally out a) + length (filter succeeded outs),
      failCount = failCount (tally out a) + length (filter (\<lambda>out. \<not> succeeded out) outs)\<rparr>"
    by (rule Cons.IH)
  finally show ?case by (simp add: tally_fields)
qed

lemma Math_round_0: "Math_round 0 = 0"
  by (simp add: Math_round_def)

lemma report_fold: "report rounded (fold tally outs acc0) = summary rounded outs"
  by (subst fold_tally)
     (simp add: report_def summary_def acc0_def Let_def sum_length_filter_compl)

lemma tallied_report:
  "tallied url t (acc0, w) aw \<Longrightarrow> report rounded (fst aw) = summary rounded (samples url t w (snd aw))"
  by (cases aw) (simp add: tallied_def report_fold)

lemma runReliabilityTest_report:
  "runReliabilityTest url duration w =
     (report False (fst (rel_loop url (now w + duration * 1000) acc0 w)),
      snd (rel_loop url (now w + duration * 1000) acc0 w))"
  by (simp add: runReliabilityTest_def report_def Let_def split_beta mean_def percent_def)

lemma runLoadTest_report:
  "runLoadTest url duration w =
     (report False (fst (workers LoadWorkers url (of_int (now w + duration * 1000))
                           (replicate 10 (now w)) acc0 w)),
      snd (workers LoadWorkers url (of_int (now w + duration * 1000)) (replicate 10 (now w)) acc0 w))"
  by (simp add: runLoadTest_def report_def Let_def split_beta mean_def percent_def)

lemma runStressTest_report:
  "runStressTest url duration w =
     (report False (fst (fold (stress_phase url (of_int duration * 1000)) [0, 1, 2] (acc0, w))),
      snd (fold (stress_phase url (of_int duration * 1000)) [0, 1, 2] (acc0, w)))"
  by (simp add: runStressTest_def report_def Let_def split_beta mean_def percent_def del: fold_simps)

lemma runResponseTimeTest_report:
  "runResponseTimeTest url duration w =
     (report True (fst (rt_loop url (now w + duration * 1000) 0 acc0 w)),
      snd (rt_loop url (now w + duration * 1000) 0 acc0 w))"
  by (simp add: runResponseTimeTest_def report_def Let_def split_beta mean_def percent_def
        round2_def Math_round_0)

lemma runReliabilityTest_summary:
  "fst (runReliabilityTest url duration w)
     = summary False (samples url 30000 w (snd (runReliabilityTest url duration w)))"
  unfolding runReliabilityTest_report fst_conv snd_conv
  by (rule tallied_report[OF rel_loop_tallied])

lemma runLoadTest_summary:
  "fst (runLoadTest url duration w)
     = summary False (samples url 10000 w (snd (runLoadTest url duration w)))"
  unfolding runLoadTest_report fst_conv snd_conv
  using tallied_report[OF workers_tallied[of url LoadWorkers]] by simp

lemma runStressTest_summary:
  "fst (runStressTest url duration w)
     = summary False (samples url 15000 w (snd (runStressTest url duration w)))"
  unfolding runStressTest_report fst_conv snd_conv
  by (rule tallied_report[OF stress_phases_tallied])

lemma runResponseTimeTest_summary:
  "fst (runResponseTimeTest url duration w)
     = summary True (samples url 10000 w (snd (runResponseTimeTest url duration w)))"
  unfolding runResponseTimeTest_report fst_conv snd_conv
  by (rule tallied_report[OF rt_loop_tallied]) simp

lemma profile_cases:
  assumes "profile type = Some run"
  obtains "type = ''response_time''" "run = runResponseTimeTest"
  | "type = ''load_test''" "run = runLoadTest"
  | "type = ''stress_test''" "run = runStressTest"
  | "type = ''reliability_test''" "run = runReliabilityTest"
  using assms by (auto simp: profile_def split: if_splits)

lemma profile_summary:
  assumes "profile type = Some run"
  shows "fst (run url duration w)
     = summary (type = ''response_time'') (samples url (request_timeout type) w (snd (run url duration w)))"
  using assms
  by (rule profile_cases)
     (simp_all add: request_timeout_def runResponseTimeTest_summary runLoadTest_summary
        runStressTest_summary runReliabilityTest_summary)

lemma round_pair:
  fixes x y :: real
  assumes "x + y = of_int n"
  shows "Math_round x + Math_round y = n \<or> Math_round x + Math_round y = n + 1"
proof -
  have y: "y + 1 / 2 = of_int n + (1 / 2 - x)" using assms by simp
  have "\<lfloor>y + 1 / 2\<rfloor> = n + \<lfloor>1 / 2 - x\<rfloor>"
    unfolding y by simp
  moreover have "- \<lfloor>x + 1 / 2\<rfloor> \<le> \<lfloor>1 / 2 - x\<rfloor>" by linarith
  moreover have "\<lfloor>1 / 2 - x\<rfloor> \<le> 1 - \<lfloor>x + 1 / 2\<rfloor>" by linarith
  ultimately show ?thesis unfolding Math_round_def by linarith
qed

lemma summary_rates:
  assumes "outs \<noteq> []"
  shows "\<bar>successRate (summary rounded outs) + errorRate (summary rounded outs) - 100\<bar> \<le> 1 / 100"
proof -
  let ?s = "length (filter succeeded outs)" and ?f = "length (filter (\<lambda>out. \<not> succeeded out) outs)"
  let ?n = "length outs"
  have n: "?s + ?f = ?n" by (rule sum_length_filter_compl)
  from assms have pos: "0 < real ?n" by simp
  have "real ?s + real ?f = real ?n" using n by (metis of_nat_add)
  then have exact: "percent ?s ?n + percent ?f ?n = 100"
    using pos by (simp add: percent_def field_simps)
  show ?thesis
  proof (cases rounded)
    case False
    with exact show ?thesis by (simp add: summary_def Let_def)
  next
    case True
    have "percent ?s ?n * 100 + percent ?f ?n * 100 = of_int 10000"
      using exact by (simp add: algebra_simps)
    from round_pair[OF this]
    have "Math_round (percent ?s ?n * 100) + Math_round (percent ?f ?n * 100) = 10000
        \<or> Math_round (percent ?s ?n * 100) + Math_round (percent ?f ?n * 100) = 10001"
      by simp
    moreover have "round2 (percent ?s ?n) + round2 (percent ?f ?n)
        = of_int (Math_round (percent ?s ?n * 100) + Math_round (percent ?f ?n * 100)) / 100"
      by (simp add: round2_def add_divide_distrib)
    ultimately have "round2 (percent ?s ?n) + round2 (percent ?f ?n) = 100
        \<or> round2 (percent ?s ?n) + round2 (percent ?f ?n) = 100 + 1 / 100"
      by auto
    with True show ?thesis by (auto simp: summary_def Let_def)
  qed
qed

section \<open>Evaluating the profiles on the example targets\<close>

lemmas eval_defs = fetch_def sleep_def tally_def acc0_def response_ok_def Let_def Math_round_def

lemma flaky_reliability_run:
  "fst (runReliabilityTest ''u'' 15 flaky_world) =
     \<lparr>averageResponseTime = 81 / 2, successRate = 200 / 3, errorRate = 100 / 3,
      totalRequests = 3, successfulRequests = 2, failedRequests = 1\<rparr>"
  by (simp add: runReliabilityTest_def flaky_world_def rel_loop.simps eval_defs)

lemma dead_reliability_run:
  "fst (runReliabilityTest ''u'' 5 dead_world) =
     \<lparr>averageResponseTime = 0, successRate = 0, errorRate = 100,
      totalRequests = 1, successfulRequests = 0, failedRequests = 1\<rparr>"
  by (simp add: runReliabilityTest_def dead_world_def rel_loop.simps eval_defs)

lemma empty_reliability_run:
  "fst (runReliabilityTest ''u'' 0 steady_world) =
     \<lparr>averageResponseTime = 0, successRate = 0, errorRate = 0,
      totalRequests = 0, successfulRequests = 0, failedRequests = 0\<rparr>"
  by (simp add: runReliabilityTest_def steady_world_def rel_loop.simps eval_defs)

lemma flaky_response_time_run:
  "fst (runResponseTimeTest ''u'' 0 flaky_world) =
     \<lparr>averageResponseTime = 41, successRate = 40, errorRate = 60,
      totalRequests = 5, successfulRequests = 2, failedRequests = 3\<rparr>"
  "sent (snd (runResponseTimeTest ''u'' 0 flaky_world)) = 5"
  by (simp_all add: runResponseTimeTest_def flaky_world_def rt_loop.simps eval_defs)

lemma flaky_response_time_samples:
  "samples ''u'' 10000 flaky_world (snd (runResponseTimeTest ''u'' 0 flaky_world)) =
     [Response 200 40, Response 200 41, NetworkError 10, NetworkError 10, NetworkError 10]"
proof -
  have "[0..<5] = [0, 1, 2, 3, 4::nat]"
    by (simp add: upt_conv_Cons)
  moreover have "samples ''u'' 10000 flaky_world (snd (runResponseTimeTest ''u'' 0 flaky_world))
      = map (\<lambda>k. abort_after 10000 (net flaky_world ''u'' k)) [sent flaky_world..<5]"
    by (simp only: samples_def flaky_response_time_run(2))
  ultimately show ?thesis
    by (simp add: flaky_world_def)
qed

lemma once_response_time_run:
  "fst (runResponseTimeTest ''u'' 1 once_world) =
     \<lparr>averageResponseTime = 40, successRate = 1667 / 100, errorRate = 8333 / 100,
      totalRequests = 6, successfulRequests = 1, failedRequests = 5\<rparr>"
  by (simp add: runResponseTimeTest_def once_world_def rt_loop.simps eval_defs)

lemma profile_reliability: "profile ''reliability_test'' = Some runReliabilityTest"
  by (simp add: profile_def)

lemma profile_response_time: "profile ''response_time'' = Some runResponseTimeTest"
  by (simp add: profile_def)

section \<open>The score of a campaign whose samples all failed\<close>

text \<open>
  Claim C2 as stated, that the score is 0 when every sample failed, fails: one request to
  a target that refuses the connection gives an error rate of 100, an average of 0 and a
  score that is not 0.
\<close>

theorem score_all_failed_counterexample:
  "errorRate (fst (runReliabilityTest ''u'' 5 dead_world)) = 100
   \<and> averageResponseTime (fst (runReliabilityTest ''u'' 5 dead_world)) = 0
   \<and> calculatePerformanceScore (fst (runReliabilityTest ''u'' 5 dead_world)) \<noteq> 0"
  by (simp add: dead_reliability_run calculatePerformanceScore_def)

lemma round2_100: "round2 100 = 100"
  by (simp add: round2_def Math_round_def)

text \<open>
  Claim C2, amended. Whatever the profile, a result with at least one request and no
  successful one has \<open>errorRate = 100\<close> and \<open>averageResponseTime = 0\<close>, and
  \<open>calculatePerformanceScore\<close> gives it exactly 60: nothing is deducted for the latency
  and 40 for the error rate.
\<close>

theorem score_all_failed:
  assumes "profile type = Some run"
    and "0 < totalRequests (fst (run url duration w))"
    and "successfulRequests (fst (run url duration w)) = 0"
  shows "errorRate (fst (run url duration w)) = 100
     \<and> averageResponseTime (fst (run url duration w)) = 0
     \<and> calculatePerformanceScore (fst (run url duration w)) = 60"
proof -
  define outs where "outs = samples url (request_timeout type) w (snd (run url duration w))"
  define rounded where "rounded = (type = ''response_time'')"
  have r: "fst (run url duration w) = summary rounded outs"
    unfolding outs_def rounded_def by (rule profile_summary[OF assms(1)])
  from assms(2,3) have ne: "outs \<noteq> []" and none: "filter succeeded outs = []"
    unfolding r by (simp_all add: summary_def Let_def)
  from none have "\<forall>out \<in> set outs. \<not> succeeded out" by (simp add: filter_empty_conv)
  then have all: "filter (\<lambda>out. \<not> succeeded out) outs = outs" by simp
  from ne have p: "percent (length outs) (length outs) = 100" by (simp add: percent_def)
  have e: "errorRate (fst (run url duration w)) = 100"
    unfolding r by (simp add: summary_def Let_def all p round2_100)
  have a: "averageResponseTime (fst (run url duration w)) = 0"
    unfolding r by (simp add: summary_def Let_def none mean_def Math_round_0)
  from e a show ?thesis by (simp add: calculatePerformanceScore_def)
qed

text \<open>
  The hypotheses of C2 hold for the reliability profile run for 5 seconds against the
  target that refuses every connection.
\<close>

theorem score_all_failed_witness:
  "profile ''reliability_test'' = Some runReliabilityTest
   \<and> 0 < totalRequests (fst (runReliabilityTest ''u'' 5 dead_world))
   \<and> successfulRequests (fst (runReliabilityTest ''u'' 5 dead_world)) = 0
   \<and> errorRate (fst (runReliabilityTest ''u'' 5 dead_world)) = 100
   \<and> averageResponseTime (fst (runReliabilityTest ''u'' 5 dead_world)) = 0
   \<and> calculatePerformanceScore (fst (runReliabilityTest ''u'' 5 dead_world)) = 60"
proof -
  have t: "0 < totalRequests (fst (runReliabilityTest ''u'' 5 dead_world))"
    and s: "successfulRequests (fst (runReliabilityTest ''u'' 5 dead_world)) = 0"
    by (simp_all add: dead_reliability_run)
  from score_all_failed[OF profile_reliability t s] t s profile_reliability
  show ?thesis by blast
qed

section \<open>The campaign without samples\<close>

text \<open>
  Claim C3 as stated, that the score of a campaign without samples is 0, fails: the
  reliability profile run for 0 seconds issues no request and its score is not 0.
\<close>

theorem empty_campaign_counterexample:
  "totalRequests (fst (runReliabilityTest ''u'' 0 steady_world)) = 0
   \<and> calculatePerformanceScore (fst (runReliabilityTest ''u'' 0 steady_world)) \<noteq> 0"
  by (simp add: empty_reliability_run calculatePerformanceScore_def)

text \<open>
  Claim C3, amended. Whatever the profile, when no request was issued
  (\<open>totalRequests = 0\<close>) every field of the result is zero, and the performance score
  derived from it is 100: \<open>calculatePerformanceScore\<close> starts from 100 and finds nothing
  to deduct.
\<close>

theorem empty_campaign:
  assumes "profile type = Some run"
    and "totalRequests (fst (run url duration w)) = 0"
  shows "fst (run url duration w) =
           \<lparr>averageResponseTime = 0, successRate = 0, errorRate = 0,
            totalRequests = 0, successfulRequests = 0, failedRequests = 0\<rparr>
     \<and> calculatePerformanceScore (fst (run url duration w)) = 100"
proof -
  let ?outs = "samples url (request_timeout type) w (snd (run url duration w))"
  have r: "fst (run url duration w) = summary (type = ''response_time'') ?outs"
    by (rule profile_summary[OF assms(1)])
  from assms(2) have "?outs = []"
    unfolding r by (simp add: summary_def Let_def)
  then have z: "fst (run url duration w) =
           \<lparr>averageResponseTime = 0, successRate = 0, errorRate = 0,
            totalRequests = 0, successfulRequests = 0, failedRequests = 0\<rparr>"
    unfolding r by (simp add: summary_def Let_def mean_def percent_def round2_def Math_round_0)
  then show ?thesis by (simp add: calculatePerformanceScore_def)
qed

text \<open>
  The hypotheses of C3 hold for the reliability profile run for 0 seconds.
\<close>

theorem empty_campaign_witness:
  "profile ''reliability_test'' = Some runReliabilityTest
   \<and> totalRequests (fst (runReliabilityTest ''u'' 0 steady_world)) = 0
   \<and> calculatePerformanceScore (fst (runReliabilityTest ''u'' 0 steady_world)) = 100"
proof -
  have t: "totalRequests (fst (runReliabilityTest ''u'' 0 steady_world)) = 0"
    by (simp add: empty_reliability_run)
  from empty_campaign[OF profile_reliability t] t profile_reliability
  show ?thesis by blast
qed

section \<open>Rounding and the average latency\<close>

text \<open>
  Claim C6 as stated fails twice. The reliability profile, run for 15 seconds against the
  target that answers twice and then fails, reports the success rate 200/3, which has more
  than two decimals. The latency probe against the same target reports the average 41,
  while the mean of its two successful samples is 40.5.
\<close>

theorem aggregation_counterexample:
  "\<not> two_decimals (successRate (fst (runReliabilityTest ''u'' 15 flaky_world)))
   \<and> averageResponseTime (fst (runResponseTimeTest ''u'' 0 flaky_world))
       \<noteq> mean (map elapsed (filter succeeded
             (samples ''u'' 10000 flaky_world (snd (runResponseTimeTest ''u'' 0 flaky_world)))))"
  by (simp add: flaky_reliability_run flaky_response_time_run(1) flaky_response_time_samples
        two_decimals_def succeeded_def response_ok_def mean_def)

lemma two_decimals_round2: "two_decimals (round2 x)"
  by (simp add: two_decimals_def round2_def)

text \<open>
  Claim C6, amended. The result of every profile is the summary of the samples it issued:
  failed samples are counted and stay out of the latency average, which is the mean of
  the elapsed times of the successful samples. Only the latency probe
  (\<open>response_time\<close>) rounds: its rates to two decimals and its average to the nearest
  integer. The other three profiles return the mean and the two percentages as they are.
\<close>

theorem aggregation_by_profile:
  assumes "profile type = Some run"
  shows "fst (run url duration w) =
           summary (type = ''response_time'')
             (samples url (request_timeout type) w (snd (run url duration w)))
     \<and> (type = ''response_time'' \<longrightarrow>
          two_decimals (successRate (fst (run url duration w)))
          \<and> two_decimals (errorRate (fst (run url duration w))))"
proof -
  have r: "fst (run url duration w) = summary (type = ''response_time'')
             (samples url (request_timeout type) w (snd (run url duration w)))"
    by (rule profile_summary[OF assms])
  moreover have "type = ''response_time'' \<Longrightarrow>
      two_decimals (successRate (fst (run url duration w)))
      \<and> two_decimals (errorRate (fst (run url duration w)))"
    by (subst (1 2) r) (simp add: summary_def Let_def two_decimals_round2)
  ultimately show ?thesis by blast
qed

text \<open>
  The hypothesis of C6 holds for the latency probe; against the target that answers twice
  and then fails its five samples are summarised with rounding.
\<close>

theorem aggregation_by_profile_witness:
  "profile ''response_time'' = Some runResponseTimeTest
   \<and> fst (runResponseTimeTest ''u'' 0 flaky_world) =
       summary True [Response 200 40, Response 200 41, NetworkError 10, NetworkError 10, NetworkError 10]
   \<and> two_decimals (successRate (fst (runResponseTimeTest ''u'' 0 flaky_world)))
   \<and> two_decimals (errorRate (fst (runResponseTimeTest ''u'' 0 flaky_world)))"
proof -
  note run = aggregation_by_profile[OF profile_response_time, of "''u''" 0 flaky_world]
  from run have "fst (runResponseTimeTest ''u'' 0 flaky_world) =
      summary True (samples ''u'' 10000 flaky_world (snd (runResponseTimeTest ''u'' 0 flaky_world)))"
    by (simp add: request_timeout_def)
  moreover from run have "two_decimals (successRate (fst (runResponseTimeTest ''u'' 0 flaky_world)))"
    and "two_decimals (errorRate (fst (runResponseTimeTest ''u'' 0 flaky_world)))"
    by blast+
  ultimately show ?thesis
    using profile_response_time unfolding flaky_response_time_samples by blast
qed

section \<open>Counts and rates of a result\<close>

text \<open>
  Claim C7. For the result of every profile, \<open>successfulRequests + failedRequests\<close> is
  exactly \<open>totalRequests\<close>, and when a request was issued \<open>successRate + errorRate\<close>
  is 100 within rounding: it differs from 100 by less than 0.011. The two rates of the
  latency probe are each rounded to two decimals, so that their sum is off by at most one
  unit of the second decimal; the other profiles give the two percentages as they are.
  The bound leaves room beyond that unit, since the numbers here are exact and those of
  the program are doubles.
\<close>

theorem result_counts_and_rates:
  assumes "profile type = Some run"
  shows "successfulRequests (fst (run url duration w)) + failedRequests (fst (run url duration w))
           = totalRequests (fst (run url duration w))
     \<and> (0 < totalRequests (fst (run url duration w)) \<longrightarrow>
          \<bar>successRate (fst (run url duration w)) + errorRate (fst (run url duration w)) - 100\<bar>
            < 11 / 1000)"
proof -
  let ?outs = "samples url (request_timeout type) w (snd (run url duration w))"
  have r: "fst (run url duration w) = summary (type = ''response_time'') ?outs"
    by (rule profile_summary[OF assms])
  have "successfulRequests (summary (type = ''response_time'') ?outs)
          + failedRequests (summary (type = ''response_time'') ?outs)
        = totalRequests (summary (type = ''response_time'') ?outs)"
    by (simp add: summary_def Let_def sum_length_filter_compl)
  moreover have "\<bar>successRate (summary (type = ''response_time'') ?outs)
        + errorRate (summary (type = ''response_time'') ?outs) - 100\<bar> < 11 / 1000"
    if "0 < totalRequests (summary (type = ''response_time'') ?outs)"
  proof -
    from that have "?outs \<noteq> []" by (simp add: summary_def Let_def)
    from summary_rates[OF this, of "type = ''response_time''"] show ?thesis by linarith
  qed
  ultimately show ?thesis unfolding r by blast
qed

text \<open>
  The hypotheses of C7 hold for the latency probe run for 1 second against the target
  that answers once: it issues six requests, one of them successful, and rounds the rates
  to 16.67 and 83.33.
\<close>

theorem result_counts_and_rates_witness:
  "profile ''response_time'' = Some runResponseTimeTest
   \<and> 0 < totalRequests (fst (runResponseTimeTest ''u'' 1 once_world))
   \<and> successRate (fst (runResponseTimeTest ''u'' 1 once_world)) = 1667 / 100
   \<and> errorRate (fst (runResponseTimeTest ''u'' 1 once_world)) = 8333 / 100
   \<and> \<bar>successRate (fst (runResponseTimeTest ''u'' 1 once_world))
        + errorRate (fst (runResponseTimeTest ''u'' 1 once_world)) - 100\<bar> < 11 / 1000"
proof -
  have t: "0 < totalRequests (fst (runResponseTimeTest ''u'' 1 once_world))"
    and s: "successRate (fst (runResponseTimeTest ''u'' 1 once_world)) = 1667 / 100"
    and e: "errorRate (fst (runResponseTimeTest ''u'' 1 once_world)) = 8333 / 100"
    by (simp_all add: once_response_time_run)
  from result_counts_and_rates[OF profile_response_time, of "''u''" 1 once_world] t s e
    profile_response_time
  show ?thesis by blast
qed


section \<open>The ceiling of the latency probe\<close>

lemma issued_tally: "issued (tally out a) = issued a + 1"
  by (simp add: issued_def tally_def split: fetch_outcome.splits)

lemma adaptive_delay_le: "\<lfloor>min 200 (max 50 (real e * (1 / 10)))\<rfloor> \<le> (200::int)"
proof -
  have "\<lfloor>min 200 (max 50 (real e * (1 / 10)))\<rfloor> \<le> \<lfloor>200::real\<rfloor>"
    by (rule floor_mono) simp
  then show ?thesis by simp
qed

lemma rt_body_issued: "issued (fst (rt_body url a w)) = issued a + 1"
  by (simp add: rt_body_def issued_tally split: prod.splits fetch_outcome.splits)

lemma rt_body_clock: "now (snd (rt_body url a w)) \<le> now w + 10200"
proof (cases "fetch url 10000 w")
  case (Pair out w1)
  from fetch_clock[OF Pair] have w1: "now w1 \<le> now w + 10000" by simp
  show ?thesis
  proof (cases out)
    case (Response st e)
    have "now (snd (rt_body url a w)) = now w1 + \<lfloor>min 200 (max 50 (real e * (1 / 10)))\<rfloor>"
      using Pair Response by (simp add: rt_body_def sleep_def)
    with w1 adaptive_delay_le[of e] show ?thesis by linarith
  next
    case (NetworkError e)
    have "now (snd (rt_body url a w)) = now w1 + 100"
      using Pair NetworkError by (simp add: rt_body_def sleep_def)
    with w1 show ?thesis by linarith
  qed
qed

lemma rt_loop_issued_le:
  "rc \<le> 100 \<Longrightarrow> issued (fst (rt_loop url endTime rc a w)) + rc \<le> issued a + 101"
proof (induction "100 - rc" arbitrary: rc a w)
  case 0
  then have "rc = 100" by simp
  then show ?case
    by (subst rt_loop_unfold) (simp add: rt_body_issued)
next
  case (Suc k)
  then have rc: "rc < 100" by simp
  have "issued (fst (rt_loop url endTime (rc + 1) (fst (rt_body url a w)) (snd (rt_body url a w))))
          + (rc + 1) \<le> issued (fst (rt_body url a w)) + 101"
    using Suc by (intro Suc.hyps(1)) simp_all
  with rc show ?case
    by (subst rt_loop_unfold) (simp add: rt_body_issued)
qed

lemma rt_loop_issued_eq:
  "rc \<le> 100 \<Longrightarrow> now w + (101 - int rc) * 10200 \<le> endTime \<Longrightarrow>
   issued (fst (rt_loop url endTime rc a w)) + rc = issued a + 101"
proof (induction "100 - rc" arbitrary: rc a w)
  case 0
  then have "rc = 100" by simp
  with 0 show ?case
    by (subst rt_loop_unfold) (simp add: rt_body_issued)
next
  case (Suc k)
  then have rc: "rc < 100" by simp
  from Suc.prems rc have run: "now w < endTime" by simp
  have "now (snd (rt_body url a w)) + (101 - int (rc + 1)) * 10200 \<le> endTime"
    using rt_body_clock[of url a w] Suc.prems(2) by simp
  then have "issued (fst (rt_loop url endTime (rc + 1) (fst (rt_body url a w)) (snd (rt_body url a w))))
          + (rc + 1) = issued (fst (rt_body url a w)) + 101"
    using Suc by (intro Suc.hyps(1)) simp_all
  with rc run show ?case
    by (subst rt_loop_unfold) (simp add: rt_body_issued)
qed

lemma runResponseTimeTest_at_most_101:
  "totalRequests (fst (runResponseTimeTest url duration w)) \<le> 101"
  using rt_loop_issued_le[of 0 url "now w + duration * 1000" acc0 w]
  by (simp add: runResponseTimeTest_def Let_def split_beta acc0_def issued_def)

text \<open>
  Claim C4 says the latency probe never issues more than 100 requests. The loop leaves
  only once \<open>requestCount > 100\<close>, that is after the 101st request: whenever the
  duration is long enough for the deadline not to end the loop first (1031 seconds
  suffice, since a pass takes at most 10.2 seconds), \<open>totalRequests\<close> is 101, whatever
  the target answers.
\<close>

theorem runResponseTimeTest_issues_101:
  "1031 \<le> duration \<Longrightarrow> totalRequests (fst (runResponseTimeTest url duration w)) = 101"
  using rt_loop_issued_eq[of 0 w "now w + duration * 1000" url acc0]
  by (simp add: runResponseTimeTest_def Let_def split_beta acc0_def issued_def)

text \<open>
  For C4: a campaign of one hour against a target that answers in 50 ms.
\<close>

theorem runResponseTimeTest_issues_101_witness:
  "(1031::int) \<le> 3600 \<and> totalRequests (fst (runResponseTimeTest ''u'' 3600 steady_world)) = 101"
  using runResponseTimeTest_issues_101[of 3600 "''u''" steady_world] by simp

section \<open>The monitor's tick\<close>

lemma performUptimeCheck_eq:
  "performUptimeCheck url s =
     (Inr (case fst (fetch url 30000 (world s)) of
             Response st e \<Rightarrow>
               \<lparr>uptime = (if response_ok st then 100 else 0), responseTime = e,
                isOnline = response_ok st, statusCode = Some st\<rparr>
           | NetworkError e \<Rightarrow>
               \<lparr>uptime = 0, responseTime = 0, isOnline = False, statusCode = None\<rparr>),
      s\<lparr>world := snd (fetch url 30000 (world s))\<rparr>)"
  by (simp add: performUptimeCheck_def try_catch_def await_def fetch_or_throw_def io_def
        ret_def throw_def Let_def split: prod.splits fetch_outcome.splits)

text \<open>
  Claim C9. \<open>performUptimeCheck\<close> returns an \<open>UptimeResult\<close> for every URL and in
  every state, and never throws. The result carries a status code exactly when the fetch
  came back with a response; when the fetch threw, whatever time had passed, the result is
  \<open>{uptime: 0, responseTime: 0, isOnline: false}\<close> without a status code.
\<close>

theorem performUptimeCheck_total:
  "\<exists>r s'. performUptimeCheck url s = (Inr r, s')
     \<and> (statusCode r \<noteq> None \<longleftrightarrow> (\<exists>st e. fst (fetch url 30000 (world s)) = Response st e))
     \<and> ((\<exists>e. fst (fetch url 30000 (world s)) = NetworkError e) \<longrightarrow>
          r = \<lparr>uptime = 0, responseTime = 0, isOnline = False, statusCode = None\<rparr>)"
  unfolding performUptimeCheck_eq
  by (cases "fst (fetch url 30000 (world s))") auto

text \<open>
  For C9: the check of a target that refuses the connection.
\<close>

theorem performUptimeCheck_total_witness:
  "fst (fetch ''u'' 30000 (world (quiet_sys dead_world))) = NetworkError 0
   \<and> fst (performUptimeCheck ''u'' (quiet_sys dead_world))
       = Inr \<lparr>uptime = 0, responseTime = 0, isOnline = False, statusCode = None\<rparr>"
proof -
  have f: "fst (fetch ''u'' 30000 (world (quiet_sys dead_world))) = NetworkError 0"
    by (simp add: fetch_def quiet_sys_def dead_world_def Let_def)
  from performUptimeCheck_total[of "''u''" "quiet_sys dead_world"] f
  show ?thesis by auto
qed

lemma checkReliability_calls:
  "\<exists>m p. rm_mttr m = toString (real (rm_outageCount m))
     \<and> rm_outageCount m = (if succeeded (fst (fetch url 30000 (world s))) then 0 else 1)
     \<and> new_calls s (snd (checkReliability applicationId url s)) =
       (if faults s (length (calls s))
        then [(CreateReliabilityMetrics m, True),
              (CreateReliabilityMetrics (failure_metrics applicationId), faults s (length (calls s) + 1))]
        else if faults s (length (calls s) + 1)
        then [(CreateReliabilityMetrics m, False),
              (CreatePerformanceMetrics p, True),
              (CreateReliabilityMetrics (failure_metrics applicationId), faults s (length (calls s) + 2))]
        else [(CreateReliabilityMetrics m, False), (CreatePerformanceMetrics p, False)])"
  by (cases "fst (fetch url 30000 (world s))")
     (simp_all add: checkReliability_def try_catch_def await_def performUptimeCheck_eq
        createReliabilityMetrics_def createPerformanceMetrics_def db_call_def new_calls_def
        toString_def succeeded_def Let_def)


text \<open>
  Claim C1 as stated, that every tick writes exactly one record pair, fails: when the
  first write of a tick throws, the tick writes the failure record and no performance
  record.
\<close>

theorem tick_records_counterexample:
  "faults (failing_sys 0 steady_world) (length (calls (failing_sys 0 steady_world)))
   \<and> \<not> one_record_pair
         (new_calls (failing_sys 0 steady_world)
            (snd (checkReliability ''app'' ''u'' (failing_sys 0 steady_world))))"
  by (simp add: one_record_pair_def committed_def new_calls_def failing_sys_def quiet_sys_def
        steady_world_def checkReliability_def try_catch_def await_def performUptimeCheck_eq
        createReliabilityMetrics_def createPerformanceMetrics_def db_call_def fetch_def Let_def)

text \<open>
  Claim C1, amended. When a write of the \<open>try\<close> block of a tick throws (the first
  call of the tick, or the second after the first went through), the last call of the tick
  is the write of the reliability record of total failure, \<open>uptime = "0"\<close>,
  \<open>slaCompliance = "0"\<close>, \<open>outageCount = 1\<close>, and no performance record of the tick
  goes through. When neither throws, the tick makes exactly two calls and writes one
  reliability record and one performance record.
\<close>

theorem tick_records:
  "let t = new_calls s (snd (checkReliability applicationId url s))
   in if faults s (length (calls s)) \<or> faults s (length (calls s) + 1)
      then fst (last t) =
             CreateReliabilityMetrics
               \<lparr>rm_applicationId = applicationId, rm_uptime = NumString 0,
                rm_slaCompliance = NumString 0, rm_outageCount = 1, rm_mttr = NumString 1\<rparr>
           \<and> performance_records (committed t) = []
      else length t = 2 \<and> one_record_pair t"
proof -
  from checkReliability_calls[of url s applicationId] obtain m p where
    "new_calls s (snd (checkReliability applicationId url s)) =
       (if faults s (length (calls s))
        then [(CreateReliabilityMetrics m, True),
              (CreateReliabilityMetrics (failure_metrics applicationId), faults s (length (calls s) + 1))]
        else if faults s (length (calls s) + 1)
        then [(CreateReliabilityMetrics m, False),
              (CreatePerformanceMetrics p, True),
              (CreateReliabilityMetrics (failure_metrics applicationId), faults s (length (calls s) + 2))]
        else [(CreateReliabilityMetrics m, False), (CreatePerformanceMetrics p, False)])"
    by blast
  then show ?thesis
    by (simp add: Let_def one_record_pair_def committed_def failure_metrics_def)
qed

text \<open>
  For C1: the tick whose first write throws ends with the failure record.
\<close>

theorem tick_records_witness:
  "faults (failing_sys 0 steady_world) (length (calls (failing_sys 0 steady_world)))
   \<and> fst (last (new_calls (failing_sys 0 steady_world)
                  (snd (checkReliability ''app'' ''u'' (failing_sys 0 steady_world))))) =
             CreateReliabilityMetrics
               \<lparr>rm_applicationId = ''app'', rm_uptime = NumString 0,
                rm_slaCompliance = NumString 0, rm_outageCount = 1, rm_mttr = NumString 1\<rparr>"
proof -
  have f: "faults (failing_sys 0 steady_world) (length (calls (failing_sys 0 steady_world)))"
    by (simp add: failing_sys_def quiet_sys_def)
  from tick_records[of "failing_sys 0 steady_world" "''app''" "''u''"] f
  show ?thesis by (simp add: Let_def)
qed

text \<open>
  Claim C10. A tick writes at least one reliability record, and in every reliability
  record it writes \<open>mttr\<close> is the decimal text of \<open>outageCount\<close>. In the record of the
  \<open>try\<close> block, the first one, it is \<open>"0"\<close> when the target is online and \<open>"1"\<close> when
  it is not; in the record of the failure branch it is \<open>"1"\<close>.
\<close>

theorem mttr_is_outageCount:
  "let recs = reliability_records
                (attempted (new_calls s (snd (checkReliability applicationId url s))))
   in recs \<noteq> []
      \<and> (\<forall>m \<in> set recs. rm_mttr m = toString (real (rm_outageCount m)))
      \<and> rm_mttr (hd recs)
          = (if succeeded (fst (fetch url 30000 (world s))) then NumString 0 else NumString 1)
      \<and> (\<forall>m \<in> set (tl recs). rm_mttr m = NumString 1)"
proof -
  from checkReliability_calls[of url s applicationId] obtain m p where
    "rm_mttr m = toString (real (rm_outageCount m))"
    "rm_outageCount m = (if succeeded (fst (fetch url 30000 (world s))) then 0 else 1)"
    "new_calls s (snd (checkReliability applicationId url s)) =
       (if faults s (length (calls s))
        then [(CreateReliabilityMetrics m, True),
              (CreateReliabilityMetrics (failure_metrics applicationId), faults s (length (calls s) + 1))]
        else if faults s (length (calls s) + 1)
        then [(CreateReliabilityMetrics m, False),
              (CreatePerformanceMetrics p, True),
              (CreateReliabilityMetrics (failure_metrics applicationId), faults s (length (calls s) + 2))]
        else [(CreateReliabilityMetrics m, False), (CreatePerformanceMetrics p, False)])"
    by blast
  then show ?thesis
    by (simp add: Let_def attempted_def failure_metrics_def toString_def)
qed

text \<open>
  For C10: a tick against a target that is online, whose performance write throws,
  writes two reliability records, the first with \<open>mttr = "0"\<close>.
\<close>

theorem mttr_is_outageCount_witness:
  "reliability_records (attempted (new_calls (failing_sys 1 flaky_world)
       (snd (checkReliability ''app'' ''u'' (failing_sys 1 flaky_world)))))
     = [\<lparr>rm_applicationId = ''app'', rm_uptime = NumString 100,
          rm_slaCompliance = NumString 100, rm_outageCount = 0, rm_mttr = NumString 0\<rparr>,
        \<lparr>rm_applicationId = ''app'', rm_uptime = NumString 0,
          rm_slaCompliance = NumString 0, rm_outageCount = 1, rm_mttr = NumString 1\<rparr>]
   \<and> rm_mttr (hd (reliability_records (attempted (new_calls (failing_sys 1 flaky_world)
       (snd (checkReliability ''app'' ''u'' (failing_sys 1 flaky_world))))))) = NumString 0"
proof -
  have recs: "reliability_records (attempted (new_calls (failing_sys 1 flaky_world)
       (snd (checkReliability ''app'' ''u'' (failing_sys 1 flaky_world)))))
     = [\<lparr>rm_applicationId = ''app'', rm_uptime = NumString 100,
          rm_slaCompliance = NumString 100, rm_outageCount = 0, rm_mttr = NumString 0\<rparr>,
        \<lparr>rm_applicationId = ''app'', rm_uptime = NumString 0,
          rm_slaCompliance = NumString 0, rm_outageCount = 1, rm_mttr = NumString 1\<rparr>]"
    by (simp add: attempted_def new_calls_def failing_sys_def quiet_sys_def
        flaky_world_def checkReliability_def try_catch_def await_def performUptimeCheck_eq
        createReliabilityMetrics_def createPerformanceMetrics_def db_call_def fetch_def Let_def
        failure_metrics_def toString_def calculateSLACompliance_def response_ok_def)
  have "succeeded (fst (fetch ''u'' 30000 (world (failing_sys 1 flaky_world))))"
    by (simp add: succeeded_def fetch_def failing_sys_def quiet_sys_def flaky_world_def
        Let_def response_ok_def)
  with mttr_is_outageCount[of "failing_sys 1 flaky_world" "''app''" "''u''"] recs
  show ?thesis by (simp add: Let_def)
qed


section \<open>The lifecycle of a campaign\<close>

lemma applicationId_set_field: "b_applicationId (set_field f b) = b_applicationId b"
  by (cases f) simp_all

lemma applicationId_fold: "b_applicationId (fold set_field data b) = b_applicationId b"
  by (induction data arbitrary: b) (simp_all add: applicationId_set_field)

lemma updateBenchmark_eq:
  "data \<noteq> [] \<Longrightarrow> updateBenchmark bid data s =
     (if faults s (length (calls s))
      then (Inl (Error ''storage''), s\<lparr>calls := calls s @ [(UpdateBenchmark bid data, True)]\<rparr>)
      else (Inr (), s\<lparr>calls := calls s @ [(UpdateBenchmark bid data, False)],
                       benchmarks := (case benchmarks s bid of None \<Rightarrow> benchmarks s
                          | Some b \<Rightarrow> (benchmarks s)(bid \<mapsto> fold set_field data b))\<rparr>))"
  by (auto simp: updateBenchmark_def db_call_def Let_def split: option.splits)

lemma plus_numeral_Suc:
  "n + 2 = Suc (Suc n)" "n + 3 = Suc (Suc (Suc n))" "n + 4 = Suc (Suc (Suc (Suc n)))"
  by simp_all

lemma runBenchmark_calls:
  "new_calls s (snd (runBenchmark bid url type duration s)) =
     benchmark_calls bid url type duration (world s) (faults s) (length (calls s))
       (map_option b_applicationId (benchmarks s bid))"
proof (cases "profile type")
  case None
  then show ?thesis
    by (simp add: runBenchmark_def benchmark_calls_def try_catch_def await_def new_Date_def
          updateBenchmark_eq run_profile_def throw_def new_calls_def Let_def plus_numeral_Suc)
next
  case (Some run)
  obtain result w' where r: "run url duration (world s) = (result, w')"
    by (cases "run url duration (world s)")
  show ?thesis
  proof (cases "benchmarks s bid")
    case None
    with Some r show ?thesis
      by (simp add: runBenchmark_def benchmark_calls_def try_catch_def await_def new_Date_def
          updateBenchmark_eq run_profile_def io_def getBenchmarkById_def
          createPerformanceMetrics_def db_call_def ret_def new_calls_def Let_def
          plus_numeral_Suc)
  next
    case (Some b)
    with \<open>profile type = Some run\<close> r show ?thesis
      by (simp add: runBenchmark_def benchmark_calls_def try_catch_def await_def new_Date_def
          updateBenchmark_eq run_profile_def io_def getBenchmarkById_def
          createPerformanceMetrics_def db_call_def ret_def new_calls_def Let_def
          applicationId_fold applicationId_set_field plus_numeral_Suc)
  qed
qed


text \<open>
  Claim C5 as stated fails when the performance-metrics write after completion throws:
  the \<open>catch\<close> block then writes \<open>failed\<close> to a campaign that is already
  \<open>completed\<close>, a third write to the campaign and one after a terminal state.
\<close>

theorem campaign_lifecycle_counterexample:
  "map statuses (campaign_writes ''b1'' (committed
     (new_calls (with_tables (failing_sys 3 steady_world) [''b1'' \<mapsto> pending_row] [] [])
        (snd (runBenchmark ''b1'' ''u'' ''reliability_test'' 0
               (with_tables (failing_sys 3 steady_world) [''b1'' \<mapsto> pending_row] [] []))))))
     = [[''running''], [''completed''], [''failed'']]
   \<and> \<not> lifecycle_ok (campaign_writes ''b1'' (committed
     (new_calls (with_tables (failing_sys 3 steady_world) [''b1'' \<mapsto> pending_row] [] [])
        (snd (runBenchmark ''b1'' ''u'' ''reliability_test'' 0
               (with_tables (failing_sys 3 steady_world) [''b1'' \<mapsto> pending_row] [] []))))))"
  by (simp add: runBenchmark_calls benchmark_calls_def profile_reliability committed_def
        with_tables_def failing_sys_def quiet_sys_def lifecycle_ok_def Let_def)

text \<open>
  Claim C5, amended. In every execution of \<open>runBenchmark\<close> in which no call other than
  an \<open>updateBenchmark\<close> throws, that is in which neither \<open>getBenchmarkById\<close> nor the
  performance-metrics write throws, the writes to the campaign that go through are the
  write of \<open>running\<close> and then the write of one terminal status, or a prefix of that, or
  the write of \<open>failed\<close> alone. Every write to the campaign carries exactly one status, so
  these are all the writes: at most two transitions, and no write to the campaign, with a
  status or without, after a terminal state.
\<close>

theorem campaign_lifecycle:
  assumes "\<forall>x \<in> set (new_calls s (snd (runBenchmark bid url type duration s))).
             snd x \<longrightarrow> is_update (fst x)"
  shows "map statuses (campaign_writes bid
           (committed (new_calls s (snd (runBenchmark bid url type duration s)))))
         \<in> {[], [[''running'']], [[''failed'']],
            [[''running''], [''completed'']], [[''running''], [''failed'']]}
     \<and> lifecycle_ok (campaign_writes bid
           (committed (new_calls s (snd (runBenchmark bid url type duration s)))))"
proof -
  have "(\<forall>x \<in> set (benchmark_calls bid url type duration w f n app). snd x \<longrightarrow> is_update (fst x))
      \<longrightarrow> map statuses
            (campaign_writes bid (committed (benchmark_calls bid url type duration w f n app)))
          \<in> {[], [[''running'']], [[''failed'']],
             [[''running''], [''completed'']], [[''running''], [''failed'']]}
        \<and> lifecycle_ok
            (campaign_writes bid (committed (benchmark_calls bid url type duration w f n app)))"
    for w f n app
    by (simp add: benchmark_calls_def committed_def lifecycle_ok_def terminal_write_def
          terminal_def Let_def split: option.splits)
  with assms show ?thesis
    unfolding runBenchmark_calls by blast
qed

text \<open>
  For C5: a run in which no storage call throws writes \<open>running\<close>, then \<open>completed\<close>, and
  nothing else to the campaign.
\<close>

theorem campaign_lifecycle_witness:
  "map snd (new_calls (with_tables (quiet_sys steady_world) [''b1'' \<mapsto> pending_row] [] [])
        (snd (runBenchmark ''b1'' ''u'' ''reliability_test'' 0
               (with_tables (quiet_sys steady_world) [''b1'' \<mapsto> pending_row] [] []))))
     = [False, False, False, False]
   \<and> map statuses (campaign_writes ''b1'' (committed
     (new_calls (with_tables (quiet_sys steady_world) [''b1'' \<mapsto> pending_row] [] [])
        (snd (runBenchmark ''b1'' ''u'' ''reliability_test'' 0
               (with_tables (quiet_sys steady_world) [''b1'' \<mapsto> pending_row] [] []))))))
     = [[''running''], [''completed'']]
   \<and> lifecycle_ok (campaign_writes ''b1'' (committed
     (new_calls (with_tables (quiet_sys steady_world) [''b1'' \<mapsto> pending_row] [] [])
        (snd (runBenchmark ''b1'' ''u'' ''reliability_test'' 0
               (with_tables (quiet_sys steady_world) [''b1'' \<mapsto> pending_row] [] []))))))"
proof -
  let ?s = "with_tables (quiet_sys steady_world) [''b1'' \<mapsto> pending_row] [] []"
  let ?t = "new_calls ?s (snd (runBenchmark ''b1'' ''u'' ''reliability_test'' 0 ?s))"
  have quiet: "map snd ?t = [False, False, False, False]"
    by (simp add: runBenchmark_calls benchmark_calls_def profile_reliability
        with_tables_def quiet_sys_def Let_def)
  have "\<forall>x \<in> set ?t. snd x \<longrightarrow> is_update (fst x)"
    by (simp add: runBenchmark_calls benchmark_calls_def profile_reliability
        with_tables_def quiet_sys_def Let_def)
  from campaign_lifecycle[OF this] have "lifecycle_ok (campaign_writes ''b1'' (committed ?t))"
    by blast
  moreover have "map statuses (campaign_writes ''b1'' (committed ?t)) = [[''running''], [''completed'']]"
    by (simp add: runBenchmark_calls benchmark_calls_def profile_reliability committed_def
        with_tables_def quiet_sys_def Let_def)
  ultimately show ?thesis using quiet by blast
qed

section \<open>Reads of the storage\<close>

lemma checkReliability_calls_cong:
  assumes "world s1 = world s2" and "faults s1 = faults s2"
    and "length (calls s1) = length (calls s2)"
  shows "new_calls s1 (snd (checkReliability a url s1))
       = new_calls s2 (snd (checkReliability a url s2))"
  using assms
  by (simp add: checkReliability_def try_catch_def await_def performUptimeCheck_eq
        createReliabilityMetrics_def createPerformanceMetrics_def db_call_def new_calls_def
        Let_def)

lemma startMonitoring_calls:
  "new_calls s (snd (startMonitoring a url s)) = new_calls s (snd (checkReliability a url s))"
proof -
  define s' where "s' = (case monitoringIntervals s a of None \<Rightarrow> s
      | Some interval \<Rightarrow> s\<lparr>monitoringIntervals := (monitoringIntervals s)(a := None)\<rparr>)"
  define s'' where "s'' = s'\<lparr>monitoringIntervals := (monitoringIntervals s')(a \<mapsto> url)\<rparr>"
  have same: "world s'' = world s" "faults s'' = faults s" "calls s'' = calls s"
    by (simp_all add: s''_def s'_def split: option.splits)
  have "startMonitoring a url s = checkReliability a url s''"
    by (simp add: startMonitoring_def await_def stopMonitoring_def s''_def s'_def)
  then have "new_calls s (snd (startMonitoring a url s)) = new_calls s'' (snd (checkReliability a url s''))"
    by (simp add: new_calls_def same)
  also have "\<dots> = new_calls s (snd (checkReliability a url s))"
    by (rule checkReliability_calls_cong) (simp_all add: same)
  finally show ?thesis .
qed

lemma stopMonitoring_calls: "new_calls s (snd (stopMonitoring a s)) = []"
  by (simp add: stopMonitoring_def new_calls_def split: option.splits)

lemma checkReliability_writes:
  "list_all is_write (attempted (new_calls s (snd (checkReliability a url s))))"
proof -
  from checkReliability_calls[of url s a] obtain m p where
    "new_calls s (snd (checkReliability a url s)) =
       (if faults s (length (calls s))
        then [(CreateReliabilityMetrics m, True),
              (CreateReliabilityMetrics (failure_metrics a), faults s (length (calls s) + 1))]
        else if faults s (length (calls s) + 1)
        then [(CreateReliabilityMetrics m, False),
              (CreatePerformanceMetrics p, True),
              (CreateReliabilityMetrics (failure_metrics a), faults s (length (calls s) + 2))]
        else [(CreateReliabilityMetrics m, False), (CreatePerformanceMetrics p, False)])"
    by blast
  then show ?thesis by (simp add: attempted_def)
qed

lemma benchmark_reads:
  "filter (\<lambda>c. \<not> is_write c) (attempted (benchmark_calls bid url type duration w f n app))
     \<in> {[], [GetBenchmarkById bid]}"
  by (simp add: benchmark_calls_def attempted_def Let_def split: option.splits)

text \<open>
  Claim C8 as stated fails for \<open>runBenchmark\<close>: with the campaign's row in the storage
  it writes a performance record, with an empty storage it does not.
\<close>

theorem storage_reads_counterexample:
  "filter is_write (attempted
     (new_calls (with_tables (quiet_sys steady_world) [''b1'' \<mapsto> pending_row] [] [])
        (snd (runBenchmark ''b1'' ''u'' ''reliability_test'' 0
               (with_tables (quiet_sys steady_world) [''b1'' \<mapsto> pending_row] [] [])))))
   \<noteq> filter is_write (attempted
     (new_calls (with_tables (quiet_sys steady_world) Map.empty [] [])
        (snd (runBenchmark ''b1'' ''u'' ''reliability_test'' 0
               (with_tables (quiet_sys steady_world) Map.empty [] [])))))"
  by (simp add: runBenchmark_calls benchmark_calls_def profile_reliability attempted_def
        with_tables_def quiet_sys_def Let_def)

lemma benchmark_read_position:
  "\<not> list_all is_write (attempted (benchmark_calls bid url type duration w f n app)) \<longrightarrow>
     map snd (calls_before_read (benchmark_calls bid url type duration w f n app)) = [False, False]
     \<and> map statuses (campaign_writes bid
          (attempted (calls_before_read (benchmark_calls bid url type duration w f n app))))
        = [[''running''], [''completed'']]"
  by (simp add: benchmark_calls_def attempted_def calls_before_read_def Let_def
        split: option.splits)

text \<open>
  Claim C8, amended. No operation of the monitor reads through the storage interface:
  \<open>stopMonitoring\<close> makes no call, \<open>startMonitoring\<close> and a tick make only writes.
  \<open>runBenchmark\<close> reads at most once, by \<open>getBenchmarkById\<close> on its own campaign, and
  only after its two writes of \<open>running\<close> and of \<open>completed\<close> have both gone through.
  What the engine takes from the storage is the row of that lookup and, of every call,
  whether it throws. So for any two contents of the tables: when the clock and the
  network are the same and the same calls throw, the calls of the monitor are the same,
  and those of \<open>runBenchmark\<close> are the same as soon as the two contents agree on whether
  the campaign's row exists and on its \<open>applicationId\<close>. Which calls throw may itself
  depend on what the storage holds (a foreign key, say); that is a hypothesis here.
\<close>

theorem storage_reads:
  assumes "world s1 = world s2" and "faults s1 = faults s2"
    and "length (calls s1) = length (calls s2)"
  shows "new_calls s1 (snd (checkReliability a url s1))
       = new_calls s2 (snd (checkReliability a url s2))
   \<and> new_calls s1 (snd (startMonitoring a url s1))
       = new_calls s2 (snd (startMonitoring a url s2))
   \<and> new_calls s1 (snd (stopMonitoring a s1)) = []
   \<and> list_all is_write (attempted (new_calls s1 (snd (checkReliability a url s1))))
   \<and> list_all is_write (attempted (new_calls s1 (snd (startMonitoring a url s1))))
   \<and> (map_option b_applicationId (benchmarks s1 bid)
         = map_option b_applicationId (benchmarks s2 bid) \<longrightarrow>
        new_calls s1 (snd (runBenchmark bid url type duration s1))
        = new_calls s2 (snd (runBenchmark bid url type duration s2)))
   \<and> filter (\<lambda>c. \<not> is_write c)
        (attempted (new_calls s1 (snd (runBenchmark bid url type duration s1))))
       \<in> {[], [GetBenchmarkById bid]}
   \<and> (\<not> list_all is_write
           (attempted (new_calls s1 (snd (runBenchmark bid url type duration s1)))) \<longrightarrow>
        map snd (calls_before_read (new_calls s1 (snd (runBenchmark bid url type duration s1))))
          = [False, False]
        \<and> map statuses (campaign_writes bid (attempted (calls_before_read
              (new_calls s1 (snd (runBenchmark bid url type duration s1))))))
          = [[''running''], [''completed'']])"
proof -
  have tick: "new_calls s1 (snd (checkReliability a url s1))
       = new_calls s2 (snd (checkReliability a url s2))"
    by (rule checkReliability_calls_cong[OF assms])
  have start: "new_calls s1 (snd (startMonitoring a url s1))
       = new_calls s2 (snd (startMonitoring a url s2))"
    unfolding startMonitoring_calls by (rule tick)
  have stop: "new_calls s1 (snd (stopMonitoring a s1)) = []"
    by (rule stopMonitoring_calls)
  have writes: "list_all is_write (attempted (new_calls s1 (snd (startMonitoring a url s1))))"
    unfolding startMonitoring_calls by (rule checkReliability_writes)
  have run: "new_calls s1 (snd (runBenchmark bid url type duration s1))
        = new_calls s2 (snd (runBenchmark bid url type duration s2))"
    if "map_option b_applicationId (benchmarks s1 bid)
         = map_option b_applicationId (benchmarks s2 bid)"
    unfolding runBenchmark_calls using that assms by simp
  have reads: "filter (\<lambda>c. \<not> is_write c)
        (attempted (new_calls s1 (snd (runBenchmark bid url type duration s1))))
       \<in> {[], [GetBenchmarkById bid]}"
    unfolding runBenchmark_calls by (rule benchmark_reads)
  have position: "\<not> list_all is_write
           (attempted (new_calls s1 (snd (runBenchmark bid url type duration s1)))) \<longrightarrow>
        map snd (calls_before_read (new_calls s1 (snd (runBenchmark bid url type duration s1))))
          = [False, False]
        \<and> map statuses (campaign_writes bid (attempted (calls_before_read
              (new_calls s1 (snd (runBenchmark bid url type duration s1))))))
          = [[''running''], [''completed'']]"
    unfolding runBenchmark_calls by (rule benchmark_read_position)
  from tick start stop checkReliability_writes[of s1 a url] writes run reads position
  show ?thesis by blast
qed

text \<open>
  For C8: two storages that differ in the status of the campaign's row and in their
  reliability records, with the same clock and network and no call that throws.
\<close>

theorem storage_reads_witness:
  "world (with_tables (quiet_sys steady_world) [''b1'' \<mapsto> pending_row] [] [])
     = world (with_tables (quiet_sys steady_world)
         [''b1'' \<mapsto> pending_row\<lparr>b_status := Some ''completed''\<rparr>] [] [failure_metrics ''app''])
   \<and> faults (with_tables (quiet_sys steady_world) [''b1'' \<mapsto> pending_row] [] [])
     = faults (with_tables (quiet_sys steady_world)
         [''b1'' \<mapsto> pending_row\<lparr>b_status := Some ''completed''\<rparr>] [] [failure_metrics ''app''])
   \<and> length (calls (with_tables (quiet_sys steady_world) [''b1'' \<mapsto> pending_row] [] []))
     = length (calls (with_tables (quiet_sys steady_world)
         [''b1'' \<mapsto> pending_row\<lparr>b_status := Some ''completed''\<rparr>] [] [failure_metrics ''app'']))
   \<and> map_option b_applicationId
        (benchmarks (with_tables (quiet_sys steady_world) [''b1'' \<mapsto> pending_row] [] []) ''b1'')
     = map_option b_applicationId
        (benchmarks (with_tables (quiet_sys steady_world)
           [''b1'' \<mapsto> pending_row\<lparr>b_status := Some ''completed''\<rparr>] [] [failure_metrics ''app''])
           ''b1'')
   \<and> new_calls (with_tables (quiet_sys steady_world) [''b1'' \<mapsto> pending_row] [] [])
        (snd (runBenchmark ''b1'' ''u'' ''reliability_test'' 0
               (with_tables (quiet_sys steady_world) [''b1'' \<mapsto> pending_row] [] [])))
     = new_calls (with_tables (quiet_sys steady_world)
           [''b1'' \<mapsto> pending_row\<lparr>b_status := Some ''completed''\<rparr>] [] [failure_metrics ''app''])
        (snd (runBenchmark ''b1'' ''u'' ''reliability_test'' 0
               (with_tables (quiet_sys steady_world)
                 [''b1'' \<mapsto> pending_row\<lparr>b_status := Some ''completed''\<rparr>] []
                 [failure_metrics ''app''])))"
proof -
  let ?s1 = "with_tables (quiet_sys steady_world) [''b1'' \<mapsto> pending_row] [] []"
  let ?s2 = "with_tables (quiet_sys steady_world)
      [''b1'' \<mapsto> pending_row\<lparr>b_status := Some ''completed''\<rparr>] [] [failure_metrics ''app'']"
  have w: "world ?s1 = world ?s2" and f: "faults ?s1 = faults ?s2"
    and l: "length (calls ?s1) = length (calls ?s2)"
    and same: "map_option b_applicationId (benchmarks ?s1 ''b1'')
             = map_option b_applicationId (benchmarks ?s2 ''b1'')"
    by (simp_all add: with_tables_def quiet_sys_def)
  from storage_reads[OF w f l, of "''app''" "''u''" "''b1''" "''reliability_test''" 0] same
  have "new_calls ?s1 (snd (runBenchmark ''b1'' ''u'' ''reliability_test'' 0 ?s1))
      = new_calls ?s2 (snd (runBenchmark ''b1'' ''u'' ''reliability_test'' 0 ?s2))"
    by blast
  with w f l same show ?thesis by blast
qed

end
